theory Spec2Isabelle
  imports Main "HOL-Library.Word"
begin

section \<open>JavaScript values used by the SDK front end\<close>

text \<open>
  The front end (\<^verbatim>\<open>src/frontend.ts\<close>) stores predicate values of type \<^verbatim>\<open>any\<close>, receives
  JSON-RPC messages produced by \<^verbatim>\<open>JSON.parse\<close> and serialises its configuration with
  \<^verbatim>\<open>JSON.stringify\<close>. Values are modelled by the JSON they serialise to. Strings are byte
  strings (a JavaScript string is taken as its UTF-8 bytes, which is what
  \<^verbatim>\<open>Buffer.from(str)\<close> yields); numbers are the integer-valued ones; a \<^verbatim>\<open>Date\<close> is
  represented by the ISO string that \<^verbatim>\<open>JSON.stringify\<close> emits for it. Objects keep their
  keys in insertion order, as JavaScript does for non-index keys; the keys of an object
  are distinct in every object that the front end builds or that \<^verbatim>\<open>JSON.parse\<close> returns.
  \<^verbatim>\<open>undefined\<close> is \<open>None\<close> of an option type.
\<close>

datatype jsval =
    JNull
  | JBool bool
  | JNum int
  | JStr string
  | JArr "jsval list"
  | JObj "(string \<times> jsval) list"

type_synonym byte = "8 word"

datatype error =
    TypeError
  | SyntaxError
  | InvalidCharacterError
  | Thrown string

subsection \<open>Objects as ordered key/value lists\<close>

text \<open>
  \<^verbatim>\<open>{ ...obj, [k]: v }\<close>: the copy keeps the keys of \<^verbatim>\<open>obj\<close> in their order; a key that is
  already there keeps its position and takes the new value, a new key goes last.
\<close>

fun obj_set :: "('k \<times> 'v) list \<Rightarrow> 'k \<Rightarrow> 'v \<Rightarrow> ('k \<times> 'v) list" where
  "obj_set [] k v = [(k, v)]"
| "obj_set ((k', v') # kvs) k v =
     (if k' = k then (k, v) # kvs else (k', v') # obj_set kvs k v)"

text \<open>Reading a property: \<^verbatim>\<open>obj[k]\<close>, \<open>None\<close> when the key is absent.\<close>

fun obj_get :: "('k \<times> 'v) list \<Rightarrow> 'k \<Rightarrow> 'v option" where
  "obj_get [] k = None"
| "obj_get ((k', v') # kvs) k = (if k' = k then Some v' else obj_get kvs k)"

text \<open>
  \<^verbatim>\<open>x.name\<close> on a value that may be \<^verbatim>\<open>undefined\<close>: reading a property of \<^verbatim>\<open>undefined\<close> or
  \<^verbatim>\<open>null\<close> throws a TypeError; the names read by the front end (\<^verbatim>\<open>method\<close>, \<^verbatim>\<open>params\<close>,
  \<^verbatim>\<open>pubkey\<close>, \<^verbatim>\<open>payload\<close>, \<^verbatim>\<open>proof\<close>, \<^verbatim>\<open>error\<close>) are \<^verbatim>\<open>undefined\<close> on booleans, numbers,
  strings and arrays.
\<close>

fun get_prop :: "jsval option \<Rightarrow> string \<Rightarrow> error + jsval option" where
  "get_prop None k = Inl TypeError"
| "get_prop (Some JNull) k = Inl TypeError"
| "get_prop (Some (JObj kvs)) k = Inr (obj_get kvs k)"
| "get_prop (Some v) k = Inr None"

subsection \<open>Text of numbers and bytes\<close>

fun join_with :: "string \<Rightarrow> string list \<Rightarrow> string" where
  "join_with sep [] = []"
| "join_with sep [s] = s"
| "join_with sep (s # t # ss) = s @ sep @ join_with sep (t # ss)"

text \<open>\<^verbatim>\<open>Number.prototype.toString\<close> on an integer: decimal digits, a minus sign when negative.\<close>

definition digit_char :: "nat \<Rightarrow> char" where
  "digit_char d = ''0123456789'' ! (d mod 10)"

fun decimal :: "nat \<Rightarrow> string" where
  "decimal n = (if 10 \<le> n then decimal (n div 10) else []) @ [digit_char n]"

definition Number_toString :: "int \<Rightarrow> string" where
  "Number_toString i = (if 0 \<le> i then decimal (nat i) else CHR ''-'' # decimal (nat (- i)))"

definition hex_digit :: "nat \<Rightarrow> char" where
  "hex_digit n = ''0123456789abcdef'' ! (n mod 16)"

text \<open>\<^verbatim>\<open>bytesToHex\<close> of \<^verbatim>\<open>@noble/ciphers/utils\<close>: two lower-case hex digits per byte.\<close>

definition bytesToHex :: "byte list \<Rightarrow> string" where
  "bytesToHex bs = concat (map (\<lambda>b. [hex_digit (unat b div 16), hex_digit (unat b mod 16)]) bs)"

subsection \<open>\<^verbatim>\<open>JSON.stringify\<close> and string conversion\<close>

definition json_escape_char :: "char \<Rightarrow> string" where
  "json_escape_char c =
     (if c = CHR 0x22 then [CHR 0x5C, CHR 0x22]
      else if c = CHR 0x5C then [CHR 0x5C, CHR 0x5C]
      else if c = CHR 0x08 then [CHR 0x5C, CHR ''b'']
      else if c = CHR 0x0C then [CHR 0x5C, CHR ''f'']
      else if c = CHR 0x0A then [CHR 0x5C, CHR ''n'']
      else if c = CHR 0x0D then [CHR 0x5C, CHR ''r'']
      else if c = CHR 0x09 then [CHR 0x5C, CHR ''t'']
      else if (of_char c :: nat) < 32
        then [CHR 0x5C, CHR ''u'', CHR ''0'', CHR ''0'',
              hex_digit (of_char c div 16), hex_digit (of_char c mod 16)]
      else [c])"

definition json_quote :: "string \<Rightarrow> string" where
  "json_quote s = [CHR 0x22] @ concat (map json_escape_char s) @ [CHR 0x22]"

fun JSON_stringify :: "jsval \<Rightarrow> string" where
  "JSON_stringify JNull = ''null''"
| "JSON_stringify (JBool b) = (if b then ''true'' else ''false'')"
| "JSON_stringify (JNum n) = Number_toString n"
| "JSON_stringify (JStr s) = json_quote s"
| "JSON_stringify (JArr vs) = ''['' @ join_with '','' (map JSON_stringify vs) @ '']''"
| "JSON_stringify (JObj kvs) =
     ''{'' @ join_with '','' (map (\<lambda>(k, v). json_quote k @ '':'' @ JSON_stringify v) kvs) @ ''}''"

text \<open>
  \<^verbatim>\<open>String(v)\<close>, the conversion behind a template literal \<^verbatim>\<open>`${v}`\<close> and behind the argument
  of \<^verbatim>\<open>atob\<close>. An object becomes \<^verbatim>\<open>[object Object]\<close>; an array joins its elements with
  commas, \<^verbatim>\<open>null\<close> elements as the empty string.
\<close>

fun js_ToString :: "jsval \<Rightarrow> string" where
  "js_ToString JNull = ''null''"
| "js_ToString (JBool b) = (if b then ''true'' else ''false'')"
| "js_ToString (JNum n) = Number_toString n"
| "js_ToString (JStr s) = s"
| "js_ToString (JArr vs) =
     join_with '','' (map (\<lambda>v. if v = JNull then [] else js_ToString v) vs)"
| "js_ToString (JObj kvs) = ''[object Object]''"

definition template :: "jsval option \<Rightarrow> string" where
  "template v = (case v of None \<Rightarrow> ''undefined'' | Some x \<Rightarrow> js_ToString x)"

subsection \<open>Base64\<close>

definition base64_alphabet :: string where
  "base64_alphabet = ''ABCDEFGHIJKLMNOPQRSTUVWXYZabcdefghijklmnopqrstuvwxyz0123456789+/''"

definition b64_char :: "nat \<Rightarrow> char" where
  "b64_char n = base64_alphabet ! (n mod 64)"

text \<open>\<^verbatim>\<open>Buffer.from(bytes).toString('base64')\<close>: three bytes give four characters, padded with \<^verbatim>\<open>=\<close>.\<close>

fun base64_encode :: "nat list \<Rightarrow> string" where
  "base64_encode [] = []"
| "base64_encode [a] = [b64_char (a div 4), b64_char ((a mod 4) * 16), CHR ''='', CHR ''='']"
| "base64_encode [a, b] =
     [b64_char (a div 4), b64_char ((a mod 4) * 16 + b div 16), b64_char ((b mod 16) * 4), CHR ''='']"
| "base64_encode (a # b # c # bs) =
     [b64_char (a div 4), b64_char ((a mod 4) * 16 + b div 16),
      b64_char ((b mod 16) * 4 + c div 64), b64_char c] @ base64_encode bs"

definition toBase64 :: "string \<Rightarrow> string" where
  "toBase64 s = base64_encode (map of_char s)"

text \<open>
  \<^verbatim>\<open>atob\<close> (forgiving base64 decoding): ASCII white space is dropped; one or two trailing
  \<^verbatim>\<open>=\<close> are dropped when the length is a multiple of four; a length of 1 modulo 4 or a
  character outside the alphabet raises InvalidCharacterError; 6 bits per character,
  left-over bits discarded. The result is a string of bytes.
\<close>

definition is_ascii_whitespace :: "char \<Rightarrow> bool" where
  "is_ascii_whitespace c \<longleftrightarrow> c \<in> {CHR 0x09, CHR 0x0A, CHR 0x0C, CHR 0x0D, CHR 0x20}"

fun index_of :: "'a list \<Rightarrow> 'a \<Rightarrow> nat option" where
  "index_of [] c = None"
| "index_of (x # xs) c = (if x = c then Some 0 else map_option (\<lambda>i. i + 1) (index_of xs c))"

definition strip_padding :: "string \<Rightarrow> string" where
  "strip_padding s =
     (if length s mod 4 = 0 \<and> s \<noteq> [] \<and> last s = CHR ''=''
      then (if butlast s \<noteq> [] \<and> last (butlast s) = CHR ''='' then butlast (butlast s) else butlast s)
      else s)"

fun sextets :: "string \<Rightarrow> nat list option" where
  "sextets [] = Some []"
| "sextets (c # cs) =
     (case index_of base64_alphabet c of
        None \<Rightarrow> None
      | Some n \<Rightarrow> map_option ((#) n) (sextets cs))"

fun decode_sextets :: "nat list \<Rightarrow> nat list" where
  "decode_sextets (a # b # c # d # r) =
     [a * 4 + b div 16, (b mod 16) * 16 + c div 4, (c mod 4) * 64 + d] @ decode_sextets r"
| "decode_sextets [a, b, c] = [a * 4 + b div 16, (b mod 16) * 16 + c div 4]"
| "decode_sextets [a, b] = [a * 4 + b div 16]"
| "decode_sextets r = []"

definition atob :: "string \<Rightarrow> error + string" where
  "atob s =
     (let t = strip_padding (filter (\<lambda>c. \<not> is_ascii_whitespace c) s) in
      if length t mod 4 = 1 then Inl InvalidCharacterError
      else case sextets t of
             None \<Rightarrow> Inl InvalidCharacterError
           | Some ns \<Rightarrow> Inr (map char_of (decode_sextets ns)))"

section \<open>The state of a \<^verbatim>\<open>ZkPassport\<close> instance\<close>

text \<open>\<^verbatim>\<open>IDCredentialConfig\<close>: the predicates recorded for one credential, by predicate name.\<close>

type_synonym credential_config = "(string \<times> jsval) list"

text \<open>\<^verbatim>\<open>Record<string, IDCredentialConfig>\<close>: the configuration of one request, by credential.\<close>

type_synonym config = "(string \<times> credential_config) list"

record key_pair =
  privateKey :: "byte list"
  publicKey :: "byte list"

text \<open>
  A registered callback is an opaque function of the caller. It is identified by a number;
  the only behaviour of a callback that the front end can observe is whether the call
  returns or throws. A callback is taken not to call back into the instance.
\<close>

datatype callback = Callback (cb_id: nat) (cb_throws: bool)

text \<open>A \<^verbatim>\<open>WebSocketClient\<close> object, by identity.\<close>

type_synonym ws_client = nat

record zkpassport =
  domain :: string
  topicToConfig :: "string \<rightharpoonup> config"
  topicToKeyPair :: "string \<rightharpoonup> key_pair"
  topicToWebSocketClient :: "string \<rightharpoonup> ws_client"
  topicToSharedSecret :: "string \<rightharpoonup> byte list"
  qrCodeScannedCallbacks :: "callback list"
  onGeneratingProofCallbacks :: "callback list"
  onProofGeneratedCallbacks :: "callback list"
  onRejectCallbacks :: "callback list"
  onErrorCallbacks :: "callback list"

text \<open>The constructor: \<^verbatim>\<open>new ZkPassport(_domain)\<close>.\<close>

definition new_ZkPassport :: "string \<Rightarrow> zkpassport" where
  "new_ZkPassport d =
     \<lparr>domain = d, topicToConfig = Map.empty, topicToKeyPair = Map.empty,
      topicToWebSocketClient = Map.empty, topicToSharedSecret = Map.empty,
      qrCodeScannedCallbacks = [], onGeneratingProofCallbacks = [],
      onProofGeneratedCallbacks = [], onRejectCallbacks = [], onErrorCallbacks = []\<rparr>"

text \<open>
  What the instance does to the outside: log lines, calls of registered callbacks with
  their arguments, and operations on WebSocket clients.
\<close>

datatype log_level = LogDebug | LogInfo | LogError

datatype effect =
    Log log_level string
  | Call callback "jsval option list"
  | Open ws_client string string
  | Send ws_client string
  | Close ws_client

section \<open>The comparison functions\<close>

datatype numerical_fn = Gte | Gt | Lte | Lt

datatype general_fn = In | Out | Eq

fun numerical_name :: "numerical_fn \<Rightarrow> string" where
  "numerical_name Gte = ''gte''"
| "numerical_name Gt = ''gt''"
| "numerical_name Lte = ''lte''"
| "numerical_name Lt = ''lt''"

fun general_name :: "general_fn \<Rightarrow> string" where
  "general_name In = ''in''"
| "general_name Out = ''out''"
| "general_name Eq = ''eq''"

text \<open>
  \<^verbatim>\<open>{ ...requestIdToConfig[requestId][key] }\<close>: spreading \<^verbatim>\<open>undefined\<close> gives the empty
  object.
\<close>

definition spread :: "credential_config option \<Rightarrow> credential_config" where
  "spread e = (case e of None \<Rightarrow> [] | Some kvs \<Rightarrow> kvs)"

text \<open>
  The three functions assign to \<^verbatim>\<open>requestIdToConfig[requestId][key]\<close>; when
  \<^verbatim>\<open>requestIdToConfig[requestId]\<close> is \<^verbatim>\<open>undefined\<close> the property read throws a TypeError.
\<close>

definition numericalCompare ::
  "numerical_fn \<Rightarrow> string \<Rightarrow> jsval \<Rightarrow> string \<Rightarrow> (string \<rightharpoonup> config) \<Rightarrow> error + (string \<rightharpoonup> config)" where
  "numericalCompare fnName key val requestId requestIdToConfig =
     (case requestIdToConfig requestId of
        None \<Rightarrow> Inl TypeError
      | Some cfg \<Rightarrow>
          Inr (requestIdToConfig(requestId \<mapsto>
                 obj_set cfg key (obj_set (spread (obj_get cfg key)) (numerical_name fnName) val))))"

definition rangeCompare ::
  "string \<Rightarrow> jsval \<times> jsval \<Rightarrow> string \<Rightarrow> (string \<rightharpoonup> config) \<Rightarrow> error + (string \<rightharpoonup> config)" where
  "rangeCompare key val requestId requestIdToConfig =
     (case requestIdToConfig requestId of
        None \<Rightarrow> Inl TypeError
      | Some cfg \<Rightarrow>
          Inr (requestIdToConfig(requestId \<mapsto>
                 obj_set cfg key
                   (obj_set (spread (obj_get cfg key)) ''range'' (JArr [fst val, snd val])))))"

definition generalCompare ::
  "general_fn \<Rightarrow> string \<Rightarrow> jsval \<Rightarrow> string \<Rightarrow> (string \<rightharpoonup> config) \<Rightarrow> error + (string \<rightharpoonup> config)" where
  "generalCompare fnName key val requestId requestIdToConfig =
     (case requestIdToConfig requestId of
        None \<Rightarrow> Inl TypeError
      | Some cfg \<Rightarrow>
          Inr (requestIdToConfig(requestId \<mapsto>
                 obj_set cfg key (obj_set (spread (obj_get cfg key)) (general_name fnName) val))))"

section \<open>The query builder\<close>

text \<open>
  \<^verbatim>\<open>getZkPassportRequest(topic)\<close> returns an object of closures over \<^verbatim>\<open>topic\<close>; each
  predicate method updates \<^verbatim>\<open>this.topicToConfig\<close> and returns a builder for the same
  topic. A builder is therefore its topic, and a method takes the instance and returns the
  updated instance, or the error thrown.
\<close>

definition store_config :: "zkpassport \<Rightarrow> error + (string \<rightharpoonup> config) \<Rightarrow> error + zkpassport" where
  "store_config st r = (case r of Inl e \<Rightarrow> Inl e | Inr m \<Rightarrow> Inr (st\<lparr>topicToConfig := m\<rparr>))"

definition eq :: "zkpassport \<Rightarrow> string \<Rightarrow> string \<Rightarrow> jsval \<Rightarrow> error + zkpassport" where
  "eq st topic key val = store_config st (generalCompare Eq key val topic (topicToConfig st))"

definition gte :: "zkpassport \<Rightarrow> string \<Rightarrow> string \<Rightarrow> jsval \<Rightarrow> error + zkpassport" where
  "gte st topic key val = store_config st (numericalCompare Gte key val topic (topicToConfig st))"

definition gt :: "zkpassport \<Rightarrow> string \<Rightarrow> string \<Rightarrow> jsval \<Rightarrow> error + zkpassport" where
  "gt st topic key val = store_config st (numericalCompare Gt key val topic (topicToConfig st))"

definition lte :: "zkpassport \<Rightarrow> string \<Rightarrow> string \<Rightarrow> jsval \<Rightarrow> error + zkpassport" where
  "lte st topic key val = store_config st (numericalCompare Lte key val topic (topicToConfig st))"

definition lt :: "zkpassport \<Rightarrow> string \<Rightarrow> string \<Rightarrow> jsval \<Rightarrow> error + zkpassport" where
  "lt st topic key val = store_config st (numericalCompare Lt key val topic (topicToConfig st))"

definition range_between :: "zkpassport \<Rightarrow> string \<Rightarrow> string \<Rightarrow> jsval \<Rightarrow> jsval \<Rightarrow> error + zkpassport" where
  "range_between st topic key start finish =
     store_config st (rangeCompare key (start, finish) topic (topicToConfig st))"

definition isin :: "zkpassport \<Rightarrow> string \<Rightarrow> string \<Rightarrow> jsval list \<Rightarrow> error + zkpassport" where
  "isin st topic key vals = store_config st (generalCompare In key (JArr vals) topic (topicToConfig st))"

definition out :: "zkpassport \<Rightarrow> string \<Rightarrow> string \<Rightarrow> jsval list \<Rightarrow> error + zkpassport" where
  "out st topic key vals = store_config st (generalCompare Out key (JArr vals) topic (topicToConfig st))"

text \<open>\<^verbatim>\<open>checkAML(country?)\<close>: the body only returns the builder.\<close>

definition checkAML :: "zkpassport \<Rightarrow> string \<Rightarrow> string option \<Rightarrow> zkpassport" where
  "checkAML st topic country = st"

text \<open>The value returned by \<^verbatim>\<open>done()\<close>, without its five subscription functions.\<close>

record descriptor =
  url :: string
  requestId :: string

definition config_json :: "config \<Rightarrow> jsval" where
  "config_json cfg = JObj (map (\<lambda>(k, e). (k, JObj e)) cfg)"

definition request_url :: "string \<Rightarrow> string \<Rightarrow> string \<Rightarrow> string \<Rightarrow> string" where
  "request_url d t c p = ''https://zkpassport.id/r?d='' @ d @ ''&t='' @ t @ ''&c='' @ c @ ''&p='' @ p"

text \<open>
  \<^verbatim>\<open>done()\<close> (\<open>done\<close> is reserved in Isabelle): when the topic has no configuration, \<^verbatim>\<open>JSON.stringify(undefined)\<close> is
  \<^verbatim>\<open>undefined\<close> and \<^verbatim>\<open>Buffer.from\<close> throws a TypeError; when it has no key pair, reading
  \<^verbatim>\<open>publicKey\<close> throws a TypeError.
\<close>

definition done_descriptor :: "zkpassport \<Rightarrow> string \<Rightarrow> error + descriptor" where
  "done_descriptor st topic =
     (case topicToConfig st topic of
        None \<Rightarrow> Inl TypeError
      | Some cfg \<Rightarrow>
          (let base64Config = toBase64 (JSON_stringify (config_json cfg)) in
           case topicToKeyPair st topic of
             None \<Rightarrow> Inl TypeError
           | Some kp \<Rightarrow>
               (let pubkey = bytesToHex (publicKey kp) in
                Inr \<lparr>url = request_url (domain st) topic base64Config pubkey,
                     requestId = topic\<rparr>)))"

text \<open>
  The subscription functions of a descriptor \<open>d\<close>, as \<^verbatim>\<open>d.onQRCodeScanned(callback)\<close> and
  so on. Each pushes onto an array of the instance.
\<close>

definition onQRCodeScanned :: "descriptor \<Rightarrow> callback \<Rightarrow> zkpassport \<Rightarrow> zkpassport" where
  "onQRCodeScanned d cb st = st\<lparr>qrCodeScannedCallbacks := qrCodeScannedCallbacks st @ [cb]\<rparr>"

definition onGeneratingProof :: "descriptor \<Rightarrow> callback \<Rightarrow> zkpassport \<Rightarrow> zkpassport" where
  "onGeneratingProof d cb st = st\<lparr>onGeneratingProofCallbacks := onGeneratingProofCallbacks st @ [cb]\<rparr>"

definition onProofGenerated :: "descriptor \<Rightarrow> callback \<Rightarrow> zkpassport \<Rightarrow> zkpassport" where
  "onProofGenerated d cb st = st\<lparr>onProofGeneratedCallbacks := onProofGeneratedCallbacks st @ [cb]\<rparr>"

definition onReject :: "descriptor \<Rightarrow> callback \<Rightarrow> zkpassport \<Rightarrow> zkpassport" where
  "onReject d cb st = st\<lparr>onRejectCallbacks := onRejectCallbacks st @ [cb]\<rparr>"

definition onError :: "descriptor \<Rightarrow> callback \<Rightarrow> zkpassport \<Rightarrow> zkpassport" where
  "onError d cb st = st\<lparr>onErrorCallbacks := onErrorCallbacks st @ [cb]\<rparr>"

section \<open>Opening a request\<close>

text \<open>
  The functions that \<^verbatim>\<open>frontend.ts\<close> imports from \<^verbatim>\<open>./encryption\<close> and \<^verbatim>\<open>./json-rpc\<close>, and
  the \<^verbatim>\<open>JSON.parse\<close> of the runtime, are parameters of the model. Each returns its value
  or the error it throws (for an asynchronous function, the rejection that \<^verbatim>\<open>await\<close>
  rethrows). \<^verbatim>\<open>decrypt\<close> is handed \<^verbatim>\<open>this.topicToSharedSecret[topic]\<close>, which is
  \<^verbatim>\<open>undefined\<close> before a handshake.
\<close>

record externals =
  JSON_parse :: "string \<Rightarrow> error + jsval"
  getSharedSecret :: "string \<Rightarrow> jsval option \<Rightarrow> error + byte list"
  createEncryptedJsonRpcRequest :: "string \<Rightarrow> jsval \<Rightarrow> byte list \<Rightarrow> string \<Rightarrow> error + jsval"
  decrypt :: "byte list \<Rightarrow> byte list option \<Rightarrow> string \<Rightarrow> error + string"

text \<open>
  The message listener that \<^verbatim>\<open>request()\<close> attaches to the WebSocket client is a closure
  over \<^verbatim>\<open>topic\<close>, \<^verbatim>\<open>keyPair\<close> and \<^verbatim>\<open>wsClient\<close>.
\<close>

record listener =
  l_topic :: string
  l_keyPair :: key_pair
  l_wsClient :: ws_client

text \<open>
  What \<^verbatim>\<open>request()\<close> obtains from outside the instance: the outcome of
  \<^verbatim>\<open>generateECDHKeyPair()\<close>, the text of \<^verbatim>\<open>randomBytes(16).toString('hex')\<close> and the client
  object made by \<^verbatim>\<open>getWebSocketClient\<close>. The first two are used only when there is no
  override.
\<close>

record fresh =
  generatedKeyPair :: "error + key_pair"
  randomTopic :: string
  newWebSocketClient :: ws_client

text \<open>
  \<^verbatim>\<open>topicOverride || randomBytes(16).toString('hex')\<close>: the empty string is falsy, as is
  \<^verbatim>\<open>undefined\<close>. \<^verbatim>\<open>keyPairOverride || (await generateECDHKeyPair())\<close>: an object is truthy.
\<close>

definition choose_topic :: "string option \<Rightarrow> string \<Rightarrow> string" where
  "choose_topic topicOverride random =
     (case topicOverride of None \<Rightarrow> random | Some t \<Rightarrow> if t = [] then random else t)"

definition choose_keyPair :: "key_pair option \<Rightarrow> error + key_pair \<Rightarrow> error + key_pair" where
  "choose_keyPair keyPairOverride generated =
     (case keyPairOverride of None \<Rightarrow> generated | Some kp \<Rightarrow> Inr kp)"

text \<open>
  \<^verbatim>\<open>request({topicOverride, keyPairOverride})\<close>. The result is the updated instance, the
  listener attached to the new client (its topic is the topic of the builder returned)
  and the effects.
\<close>

definition request ::
  "zkpassport \<Rightarrow> string option \<Rightarrow> key_pair option \<Rightarrow> fresh \<Rightarrow>
     error + (zkpassport \<times> listener \<times> effect list)" where
  "request st topicOverride keyPairOverride fr =
     (case choose_keyPair keyPairOverride (generatedKeyPair fr) of
        Inl e \<Rightarrow> Inl e
      | Inr keyPair \<Rightarrow>
          (let topic = choose_topic topicOverride (randomTopic fr);
               wsClient = newWebSocketClient fr;
               st' = st\<lparr>topicToKeyPair := (topicToKeyPair st)(topic \<mapsto>
                            \<lparr>privateKey = privateKey keyPair, publicKey = publicKey keyPair\<rparr>),
                         topicToConfig := (topicToConfig st)(topic \<mapsto> []),
                         topicToWebSocketClient := (topicToWebSocketClient st)(topic \<mapsto> wsClient)\<rparr>
           in Inr (st',
                   \<lparr>l_topic = topic, l_keyPair = keyPair, l_wsClient = wsClient\<rparr>,
                   [Open wsClient (''wss://bridge.zkpassport.id?topic='' @ topic) (domain st)])))"

section \<open>Inbound messages\<close>

text \<open>
  \<^verbatim>\<open>callbacks.forEach((callback) => callback(args))\<close>: the callbacks are called in order; a
  callback that throws ends the loop and the exception leaves \<^verbatim>\<open>forEach\<close>.
\<close>

fun forEach :: "callback list \<Rightarrow> jsval option list \<Rightarrow> effect list \<times> error option" where
  "forEach [] args = ([], None)"
| "forEach (c # cs) args =
     (if cb_throws c then ([Call c args], Some (Thrown ''callback''))
      else (case forEach cs args of (es, r) \<Rightarrow> (Call c args # es, r)))"

text \<open>
  \<^verbatim>\<open>callbacks.forEach((callback) => callback(request.params.x))\<close>: the argument is read
  inside the arrow function, so only when there is a callback to call; reading it throws
  when \<^verbatim>\<open>request.params\<close> is \<^verbatim>\<open>undefined\<close> or \<^verbatim>\<open>null\<close>.
\<close>

definition forEach_param :: "callback list \<Rightarrow> jsval \<Rightarrow> string \<Rightarrow> effect list \<times> error option" where
  "forEach_param cbs req x =
     (if cbs = [] then ([], None)
      else case get_prop (Some req) ''params'' of
             Inl e \<Rightarrow> ([], Some e)
           | Inr p \<Rightarrow>
               (case get_prop p x of
                  Inl e \<Rightarrow> ([], Some e)
                | Inr v \<Rightarrow> forEach cbs [v]))"

text \<open>
  \<^verbatim>\<open>handleEncryptedMessage(topic, request, outerRequest)\<close>. It reads the callback arrays of
  the instance and assigns nothing.
\<close>

definition handleEncryptedMessage :: "zkpassport \<Rightarrow> string \<Rightarrow> jsval \<Rightarrow> effect list \<times> error option" where
  "handleEncryptedMessage st topic req =
     (let es0 = [Log LogDebug ''Received encrypted message:''] in
      case get_prop (Some req) ''method'' of
        Inl e \<Rightarrow> (es0, Some e)
      | Inr m \<Rightarrow>
          if m = Some (JStr ''accept'') then
            (case forEach (onGeneratingProofCallbacks st) [Some (JStr topic)] of
               (es, r) \<Rightarrow>
                 (es0 @ [Log LogDebug ''User accepted the request and is generating a proof''] @ es, r))
          else if m = Some (JStr ''reject'') then
            (case forEach (onRejectCallbacks st) [] of
               (es, r) \<Rightarrow> (es0 @ [Log LogDebug ''User rejected the request''] @ es, r))
          else if m = Some (JStr ''done'') then
            (case forEach_param (onProofGeneratedCallbacks st) req ''proof'' of
               (es, r) \<Rightarrow> (es0 @ [Log LogDebug ''User generated proof''] @ es, r))
          else if m = Some (JStr ''error'') then
            (case forEach_param (onErrorCallbacks st) req ''error'' of
               (es, r) \<Rightarrow> (es0 @ es, r))
          else (es0, None))"

text \<open>\<^verbatim>\<open>data.params.pubkey\<close>, the second argument of \<^verbatim>\<open>getSharedSecret\<close>.\<close>

definition read_pubkey :: "jsval \<Rightarrow> error + jsval option" where
  "read_pubkey data =
     (case get_prop (Some data) ''params'' of
        Inl e \<Rightarrow> Inl e
      | Inr p \<Rightarrow> get_prop p ''pubkey'')"

text \<open>
  The handshake branch of the listener, up to its \<^verbatim>\<open>return\<close>: the new instance, the
  effects, and the exception that leaves the branch, if any. The shared secret is assigned
  as soon as \<^verbatim>\<open>getSharedSecret\<close> has returned it. \<^verbatim>\<open>wsClient.send\<close> is taken not to throw: a
  message event reaches the listener only once the socket has been opened.
\<close>

definition on_handshake ::
  "externals \<Rightarrow> listener \<Rightarrow> zkpassport \<Rightarrow> jsval \<Rightarrow> zkpassport \<times> effect list \<times> error option" where
  "on_handshake ext l st data =
     (let es1 = [Log LogDebug ''Received handshake:''] in
      case read_pubkey data of
        Inl e \<Rightarrow> (st, es1, Some e)
      | Inr pubkey \<Rightarrow>
      (case getSharedSecret ext (bytesToHex (privateKey (l_keyPair l))) pubkey of
        Inl e \<Rightarrow> (st, es1, Some e)
      | Inr secret \<Rightarrow>
          (let st' = st\<lparr>topicToSharedSecret := (topicToSharedSecret st)(l_topic l \<mapsto> secret)\<rparr>;
               es2 = es1 @ [Log LogDebug ''Shared secret:'']
           in case createEncryptedJsonRpcRequest ext ''hello'' JNull secret (l_topic l) of
                Inl e \<Rightarrow> (st', es2, Some e)
              | Inr encryptedMessage \<Rightarrow>
                  (case forEach (qrCodeScannedCallbacks st') [] of
                     (es, r) \<Rightarrow>
                       (st',
                        es2 @ [Log LogDebug ''Sending encrypted message:'',
                               Send (l_wsClient l) (JSON_stringify encryptedMessage)] @ es,
                        r)))))"

text \<open>
  The payload of an encrypted message:
  \<^verbatim>\<open>new Uint8Array(atob(data.params.payload).split('').map((c) => c.charCodeAt(0)))\<close>.
\<close>

definition decode_payload :: "jsval \<Rightarrow> error + byte list" where
  "decode_payload data =
     (case get_prop (Some data) ''params'' of
        Inl e \<Rightarrow> Inl e
      | Inr p \<Rightarrow>
      (case get_prop p ''payload'' of
        Inl e \<Rightarrow> Inl e
      | Inr pl \<Rightarrow>
      (case atob (template pl) of
        Inl e \<Rightarrow> Inl e
      | Inr bin \<Rightarrow> Inr (map of_char bin))))"

text \<open>
  The inner \<^verbatim>\<open>try\<close> of the encrypted-message branch: decrypt with the stored shared secret
  and parse, then dispatch.
\<close>

definition decrypt_and_parse :: "externals \<Rightarrow> listener \<Rightarrow> zkpassport \<Rightarrow> byte list \<Rightarrow> error + jsval" where
  "decrypt_and_parse ext l st payload =
     (case decrypt ext payload (topicToSharedSecret st (l_topic l)) (l_topic l) of
        Inl e \<Rightarrow> Inl e
      | Inr decrypted \<Rightarrow> JSON_parse ext decrypted)"

definition decrypt_and_handle ::
  "externals \<Rightarrow> listener \<Rightarrow> zkpassport \<Rightarrow> byte list \<Rightarrow> effect list \<times> error option" where
  "decrypt_and_handle ext l st payload =
     (case decrypt_and_parse ext l st payload of
        Inl e \<Rightarrow> ([], Some e)
      | Inr decryptedJson \<Rightarrow> handleEncryptedMessage st (l_topic l) decryptedJson)"

text \<open>
  The encrypted-message branch, up to its \<^verbatim>\<open>return\<close>. The payload is decoded outside the
  inner \<^verbatim>\<open>try\<close>; the inner \<^verbatim>\<open>catch\<close> logs and swallows. The branch assigns nothing.
\<close>

definition on_encryptedMessage ::
  "externals \<Rightarrow> listener \<Rightarrow> zkpassport \<Rightarrow> jsval \<Rightarrow> effect list \<times> error option" where
  "on_encryptedMessage ext l st data =
     (case decode_payload data of
        Inl e \<Rightarrow> ([], Some e)
      | Inr payload \<Rightarrow>
          (case decrypt_and_handle ext l st payload of
             (es, None) \<Rightarrow> (es, None)
           | (es, Some e) \<Rightarrow> (es @ [Log LogError ''Error decrypting message:''], None)))"

text \<open>The outer \<^verbatim>\<open>catch\<close> of the listener logs the exception.\<close>

definition catch_log :: "error option \<Rightarrow> effect list" where
  "catch_log r = (case r of None \<Rightarrow> [] | Some e \<Rightarrow> [Log LogError ''Error:''])"

text \<open>
  The message listener, run on \<^verbatim>\<open>event.data\<close>. A message whose method is neither
  \<^verbatim>\<open>handshake\<close> nor \<^verbatim>\<open>encryptedMessage\<close> falls through. The listener runs to its end
  before anything else happens to the instance: no other call is interleaved at its
  \<^verbatim>\<open>await\<close>s.
\<close>

definition on_message :: "externals \<Rightarrow> listener \<Rightarrow> zkpassport \<Rightarrow> string \<Rightarrow> zkpassport \<times> effect list" where
  "on_message ext l st event_data =
     (let es0 = [Log LogDebug ''Received message:''] in
      case JSON_parse ext event_data of
        Inl e \<Rightarrow> (st, es0 @ catch_log (Some e))
      | Inr data \<Rightarrow>
      (case get_prop (Some data) ''method'' of
        Inl e \<Rightarrow> (st, es0 @ catch_log (Some e))
      | Inr m \<Rightarrow>
          if m = Some (JStr ''handshake'') then
            (case on_handshake ext l st data of
               (st', es, r) \<Rightarrow> (st', es0 @ es @ catch_log r))
          else if m = Some (JStr ''encryptedMessage'') then
            (case on_encryptedMessage ext l st data of
               (es, r) \<Rightarrow> (st, es0 @ es @ catch_log r))
          else (st, es0)))"

section \<open>The URL of a request, and cancelling\<close>

text \<open>
  \<^verbatim>\<open>getUrl(requestId)\<close>: reading \<^verbatim>\<open>publicKey\<close> of a missing key pair throws a TypeError. The
  configuration is interpolated into the template literal as it is.
\<close>

definition getUrl :: "zkpassport \<Rightarrow> string \<Rightarrow> error + string" where
  "getUrl st reqId =
     (case topicToKeyPair st reqId of
        None \<Rightarrow> Inl TypeError
      | Some kp \<Rightarrow>
          (let pubkey = bytesToHex (publicKey kp) in
           Inr (request_url (domain st) reqId
                  (template (map_option config_json (topicToConfig st reqId))) pubkey)))"

text \<open>
  \<^verbatim>\<open>cancelRequest(requestId)\<close>: the first statement calls \<^verbatim>\<open>close()\<close> on
  \<^verbatim>\<open>this.topicToWebSocketClient[requestId]\<close>, which throws a TypeError when there is no
  client for the topic.
\<close>

definition cancelRequest :: "zkpassport \<Rightarrow> string \<Rightarrow> error + (zkpassport \<times> effect list)" where
  "cancelRequest st reqId =
     (case topicToWebSocketClient st reqId of
        None \<Rightarrow> Inl TypeError
      | Some wsClient \<Rightarrow>
          Inr (st\<lparr>topicToWebSocketClient := (topicToWebSocketClient st)(reqId := None),
                  topicToKeyPair := (topicToKeyPair st)(reqId := None),
                  topicToConfig := (topicToConfig st)(reqId := None),
                  topicToSharedSecret := (topicToSharedSecret st)(reqId := None),
                  qrCodeScannedCallbacks := [],
                  onGeneratingProofCallbacks := [],
                  onProofGeneratedCallbacks := [],
                  onErrorCallbacks := []\<rparr>,
               [Close wsClient]))"

section \<open>Notions used to state the properties\<close>

text \<open>The configuration entry of a credential key in the configuration of a topic.\<close>

definition entry :: "(string \<rightharpoonup> config) \<Rightarrow> string \<Rightarrow> string \<Rightarrow> credential_config" where
  "entry m topic key = (case m topic of None \<Rightarrow> [] | Some cfg \<Rightarrow> spread (obj_get cfg key))"

text \<open>
  Two calls of a builder method on the same key, \<open>first\<close> then \<open>second\<close>, where the
  second records the value \<open>v\<close> under the predicate name \<open>kind\<close>: both succeed, the instance
  after them is the one after \<open>second\<close> alone and differs from \<open>st\<close> in the configuration
  only, the entry of the key reads \<open>v\<close> for \<open>kind\<close> and reads as before for every other
  predicate name, \<open>kind\<close> occurs once in it, and the entries of the other keys and the
  configurations of the other topics are as before.
\<close>

definition last_write_wins ::
  "(zkpassport \<Rightarrow> error + zkpassport) \<Rightarrow> (zkpassport \<Rightarrow> error + zkpassport) \<Rightarrow>
     zkpassport \<Rightarrow> string \<Rightarrow> string \<Rightarrow> string \<Rightarrow> jsval \<Rightarrow> bool" where
  "last_write_wins first second st topic key kind v \<longleftrightarrow>
     (\<exists>st1 st2. first st = Inr st1 \<and> second st1 = Inr st2 \<and> second st = Inr st2
        \<and> st2 = st\<lparr>topicToConfig := topicToConfig st2\<rparr>
        \<and> obj_get (entry (topicToConfig st2) topic key) kind = Some v
        \<and> (\<forall>k. k \<noteq> kind \<longrightarrow>
              obj_get (entry (topicToConfig st2) topic key) k
                = obj_get (entry (topicToConfig st) topic key) k)
        \<and> (distinct (map fst (entry (topicToConfig st) topic key)) \<longrightarrow>
              filter (\<lambda>kv. fst kv = kind) (entry (topicToConfig st2) topic key) = [(kind, v)])
        \<and> (\<forall>key'. key' \<noteq> key \<longrightarrow>
              entry (topicToConfig st2) topic key' = entry (topicToConfig st) topic key')
        \<and> (\<forall>u. u \<noteq> topic \<longrightarrow> topicToConfig st2 u = topicToConfig st u))"


text \<open>The callbacks called in a run, with their arguments, in order.\<close>

fun calls :: "effect list \<Rightarrow> (callback \<times> jsval option list) list" where
  "calls [] = []"
| "calls (Call c args # es) = (c, args) # calls es"
| "calls (e # es) = calls es"

text \<open>The callbacks of a registry that \<^verbatim>\<open>forEach\<close> reaches: all up to the first that throws.\<close>

fun reached :: "callback list \<Rightarrow> callback list" where
  "reached [] = []"
| "reached (c # cs) = (if cb_throws c then [c] else c # reached cs)"

text \<open>The method of a parsed message.\<close>

definition has_method :: "jsval \<Rightarrow> string \<Rightarrow> bool" where
  "has_method data m \<longleftrightarrow> get_prop (Some data) ''method'' = Inr (Some (JStr m))"

text \<open>
  \<open>event_data\<close> is a handshake that the listener \<open>l\<close> completes: it parses, its method
  is \<^verbatim>\<open>handshake\<close>, the public key can be read, the shared secret is derived and the
  \<^verbatim>\<open>hello\<close> message is made.
\<close>

definition completes_handshake :: "externals \<Rightarrow> listener \<Rightarrow> string \<Rightarrow> bool" where
  "completes_handshake ext l event_data =
     (case JSON_parse ext event_data of
        Inl e \<Rightarrow> False
      | Inr data \<Rightarrow>
          has_method data ''handshake'' \<and>
          (case read_pubkey data of
             Inl e \<Rightarrow> False
           | Inr pubkey \<Rightarrow>
               (case getSharedSecret ext (bytesToHex (privateKey (l_keyPair l))) pubkey of
                  Inl e \<Rightarrow> False
                | Inr secret \<Rightarrow>
                    (case createEncryptedJsonRpcRequest ext ''hello'' JNull secret (l_topic l) of
                       Inl e \<Rightarrow> False
                     | Inr m \<Rightarrow> True))))"

text \<open>
  The inner request that the listener \<open>l\<close> dispatches for \<open>event_data\<close>: \<open>Some\<close> when
  \<open>event_data\<close> parses, its method is \<^verbatim>\<open>encryptedMessage\<close>, and its payload decodes, decrypts
  with the stored shared secret and parses.
\<close>

definition dispatched_request :: "externals \<Rightarrow> listener \<Rightarrow> zkpassport \<Rightarrow> string \<Rightarrow> jsval option" where
  "dispatched_request ext l st event_data =
     (case JSON_parse ext event_data of
        Inl e \<Rightarrow> None
      | Inr data \<Rightarrow>
          if has_method data ''encryptedMessage'' then
            (case decode_payload data of
               Inl e \<Rightarrow> None
             | Inr payload \<Rightarrow>
                 (case decrypt_and_parse ext l st payload of
                    Inl e \<Rightarrow> None
                  | Inr req \<Rightarrow> Some req))
          else None)"

section \<open>A test double of the external functions, and scenarios\<close>

text \<open>
  The properties below hold for every choice of the external functions. To run the
  listener on concrete messages, this instance is used: the shared secret is the text of
  the two keys, a ciphertext is the plaintext behind a tag made of the secret and the
  topic, and decryption checks the tag (and fails without a secret). The parser
  recognises the serialisations of a given list of values, for which it returns what
  \<^verbatim>\<open>JSON.parse\<close> returns, and rejects every other text.
\<close>

definition demo_getSharedSecret :: "string \<Rightarrow> jsval option \<Rightarrow> error + byte list" where
  "demo_getSharedSecret priv pubkey =
     (case pubkey of
        Some (JStr p) \<Rightarrow>
          if p = [] then Inl (Thrown ''invalid public key'') else Inr (map of_char (priv @ p))
      | _ \<Rightarrow> Inl (Thrown ''invalid public key''))"

definition demo_seal :: "byte list \<Rightarrow> string \<Rightarrow> string \<Rightarrow> byte list" where
  "demo_seal secret topic plaintext = secret @ map of_char (topic @ plaintext)"

definition demo_decrypt :: "byte list \<Rightarrow> byte list option \<Rightarrow> string \<Rightarrow> error + string" where
  "demo_decrypt payload secret topic =
     (case secret of
        None \<Rightarrow> Inl (Thrown ''no shared secret'')
      | Some k \<Rightarrow>
          (let tag = k @ map of_char topic in
           if take (length tag) payload = tag then Inr (map (\<lambda>b. char_of (unat b)) (drop (length tag) payload))
           else Inl (Thrown ''authentication failed'')))"

definition rpc_message :: "string \<Rightarrow> jsval \<Rightarrow> jsval" where
  "rpc_message method params = JObj [(''method'', JStr method), (''params'', params)]"

definition encrypted_message :: "byte list \<Rightarrow> string \<Rightarrow> jsval \<Rightarrow> jsval" where
  "encrypted_message secret topic inner =
     rpc_message ''encryptedMessage''
       (JObj [(''payload'',
               JStr (base64_encode (map unat (demo_seal secret topic (JSON_stringify inner)))))])"

definition demo_createEncryptedJsonRpcRequest ::
  "string \<Rightarrow> jsval \<Rightarrow> byte list \<Rightarrow> string \<Rightarrow> error + jsval" where
  "demo_createEncryptedJsonRpcRequest method params secret topic =
     Inr (encrypted_message secret topic (rpc_message method params))"

definition demo_JSON_parse :: "jsval list \<Rightarrow> string \<Rightarrow> error + jsval" where
  "demo_JSON_parse known s =
     (case find (\<lambda>v. JSON_stringify v = s) known of
        None \<Rightarrow> Inl SyntaxError
      | Some v \<Rightarrow> Inr v)"

definition demo_externals :: "jsval list \<Rightarrow> externals" where
  "demo_externals known =
     \<lparr>JSON_parse = demo_JSON_parse known,
      getSharedSecret = demo_getSharedSecret,
      createEncryptedJsonRpcRequest = demo_createEncryptedJsonRpcRequest,
      decrypt = demo_decrypt\<rparr>"

text \<open>The key pair and topic that \<^verbatim>\<open>main()\<close> of \<^verbatim>\<open>frontend.ts\<close> passes to \<^verbatim>\<open>request\<close>.\<close>

definition main_keyPair :: key_pair where
  "main_keyPair =
     \<lparr>privateKey =
        [175, 240, 91, 237, 236, 122, 175, 26, 224, 150, 40, 191, 129, 171, 80, 203, 2, 85, 135,
         222, 41, 239, 153, 214, 94, 222, 43, 145, 55, 168, 230, 253],
      publicKey =
        [2, 211, 255, 94, 93, 183, 196, 140, 52, 136, 11, 193, 30, 139, 69, 122, 75, 154, 107,
         242, 162, 245, 69, 207, 87, 94, 185, 65, 176, 143, 4, 173, 196]\<rparr>"

definition no_fresh :: "ws_client \<Rightarrow> fresh" where
  "no_fresh ws =
     \<lparr>generatedKeyPair = Inl (Thrown ''not called''), randomTopic = [], newWebSocketClient = ws\<rparr>"

text \<open>The instance of \<^verbatim>\<open>frontend.ts\<close> after the \<^verbatim>\<open>request\<close> of \<^verbatim>\<open>main()\<close>.\<close>

definition main_instance :: zkpassport where
  "main_instance =
     (new_ZkPassport ''https://demo.zkpassport.id'')
       \<lparr>topicToConfig := [''abc456'' \<mapsto> []],
        topicToKeyPair := [''abc456'' \<mapsto> main_keyPair],
        topicToWebSocketClient := [''abc456'' \<mapsto> 1]\<rparr>"

text \<open>A second request, with a short key pair, and its listener.\<close>

definition short_keyPair :: key_pair where
  "short_keyPair = \<lparr>privateKey = [10], publicKey = [2, 177]\<rparr>"

definition two_sessions :: zkpassport where
  "two_sessions =
     main_instance
       \<lparr>topicToConfig := [''abc456'' \<mapsto> [], ''def789'' \<mapsto> []],
        topicToKeyPair := [''abc456'' \<mapsto> main_keyPair, ''def789'' \<mapsto> short_keyPair],
        topicToWebSocketClient := [''abc456'' \<mapsto> 1, ''def789'' \<mapsto> 2]\<rparr>"

definition listener_def789 :: listener where
  "listener_def789 = \<lparr>l_topic = ''def789'', l_keyPair = short_keyPair, l_wsClient = 2\<rparr>"

text \<open>
  The descriptor that \<^verbatim>\<open>done()\<close> returns for \<^verbatim>\<open>abc456\<close>, and the instance after the five
  subscriptions of \<^verbatim>\<open>main()\<close> made through it, with the second request open.
\<close>

definition descriptor_abc456 :: descriptor where
  "descriptor_abc456 =
     \<lparr>url = ''https://zkpassport.id/r?d=https://demo.zkpassport.id&t=abc456&c=e30=&p=02d3ff5e5db7c48c34880bc11e8b457a4b9a6bf2a2f545cf575eb941b08f04adc4'',
      requestId = ''abc456''\<rparr>"

definition subscribed :: zkpassport where
  "subscribed =
     onError descriptor_abc456 (Callback 5 False)
       (onReject descriptor_abc456 (Callback 4 False)
          (onProofGenerated descriptor_abc456 (Callback 3 False)
             (onGeneratingProof descriptor_abc456 (Callback 2 False)
                (onQRCodeScanned descriptor_abc456 (Callback 1 False) two_sessions))))"

text \<open>The instance of \<^verbatim>\<open>main()\<close> after \<^verbatim>\<open>.eq('fullname', 'John Doe')\<close>.\<close>

definition named_instance :: zkpassport where
  "named_instance =
     main_instance\<lparr>topicToConfig := [''abc456'' \<mapsto> [(''fullname'', [(''eq'', JStr ''John Doe'')])]]\<rparr>"

text \<open>
  Messages of the relay protocol: two handshakes, the four inner requests, each with the
  encrypted message that carries it to the topic \<^verbatim>\<open>def789\<close> under the shared secret
  derived from the first handshake, and an encrypted message whose payload is not base64.
\<close>

definition handshake_03cc :: jsval where
  "handshake_03cc = rpc_message ''handshake'' (JObj [(''pubkey'', JStr ''03cc'')])"

definition handshake_03dd :: jsval where
  "handshake_03dd = rpc_message ''handshake'' (JObj [(''pubkey'', JStr ''03dd'')])"

definition secret_03cc :: "byte list" where
  "secret_03cc = map of_char ''0a03cc''"

definition secret_03dd :: "byte list" where
  "secret_03dd = map of_char ''0a03dd''"

definition accept_request :: jsval where
  "accept_request = JObj [(''method'', JStr ''accept'')]"

definition reject_request :: jsval where
  "reject_request = JObj [(''method'', JStr ''reject'')]"

definition done_request :: jsval where
  "done_request = rpc_message ''done'' (JObj [(''proof'', JStr ''deadbeef'')])"

definition error_request :: jsval where
  "error_request = rpc_message ''error'' (JObj [(''error'', JStr ''timeout'')])"

definition corrupted_message :: jsval where
  "corrupted_message = rpc_message ''encryptedMessage'' (JObj [(''payload'', JStr ''!!!'')])"

definition sealed :: "jsval \<Rightarrow> jsval" where
  "sealed inner = encrypted_message secret_03cc ''def789'' inner"

definition demo :: externals where
  "demo =
     demo_externals
       [handshake_03cc, handshake_03dd, accept_request, reject_request, done_request,
        error_request, sealed accept_request, sealed reject_request, sealed done_request,
        sealed error_request, corrupted_message]"

text \<open>The instance \<open>subscribed\<close> once the first handshake has reached the topic \<^verbatim>\<open>def789\<close>.\<close>

definition established :: zkpassport where
  "established = subscribed\<lparr>topicToSharedSecret := [''def789'' \<mapsto> secret_03cc]\<rparr>"

text \<open>The instance of \<^verbatim>\<open>main()\<close> after \<^verbatim>\<open>.lt('age', 65)\<close>.\<close>

definition aged_instance :: zkpassport where
  "aged_instance =
     main_instance\<lparr>topicToConfig := [''abc456'' \<mapsto> [(''age'', [(''lt'', JNum 65)])]]\<rparr>"

text \<open>
  The instance \<open>established\<close> after five more subscriptions, of which the one to
  \<^verbatim>\<open>onQRCodeScanned\<close> registers a callback that throws.
\<close>

definition twice_subscribed :: zkpassport where
  "twice_subscribed =
     onError descriptor_abc456 (Callback 10 False)
       (onReject descriptor_abc456 (Callback 9 False)
          (onProofGenerated descriptor_abc456 (Callback 8 False)
             (onGeneratingProof descriptor_abc456 (Callback 7 False)
                (onQRCodeScanned descriptor_abc456 (Callback 6 True) established))))"

section \<open>Objects\<close>

lemma obj_get_obj_set: "obj_get (obj_set kvs k v) k' = (if k' = k then Some v else obj_get kvs k')"
  by (induction kvs) auto

lemma obj_set_twice: "obj_set (obj_set kvs k v1) k v2 = obj_set kvs k v2"
  by (induction kvs) auto

lemma map_fst_obj_set:
  "map fst (obj_set kvs k v) = (if k \<in> set (map fst kvs) then map fst kvs else map fst kvs @ [k])"
  by (induction kvs) (auto simp: rev_image_eqI)

lemma distinct_obj_set: "distinct (map fst kvs) \<Longrightarrow> distinct (map fst (obj_set kvs k v))"
  by (simp add: map_fst_obj_set)

lemma filter_obj_set:
  "distinct (map fst kvs) \<Longrightarrow> filter (\<lambda>kv. fst kv = k) (obj_set kvs k v) = [(k, v)]"
proof (induction kvs)
  case Nil
  then show ?case by simp
next
  case (Cons a kvs)
  obtain k' v' where a: "a = (k', v')" by (cases a)
  show ?case
  proof (cases "k' = k")
    case True
    with Cons.prems a have "\<forall>kv \<in> set kvs. fst kv \<noteq> k" by auto
    then have "filter (\<lambda>kv. fst kv = k) kvs = []" by (simp add: filter_empty_conv)
    with True a show ?thesis by simp
  next
    case False
    with Cons a show ?thesis by simp
  qed
qed


lemma spread_simps [simp]: "spread None = []" "spread (Some kvs) = kvs"
  by (simp_all add: spread_def)

section \<open>Predicates of the same kind on the same key\<close>

lemma entry_other_key:
  "key' \<noteq> key \<Longrightarrow> m topic = Some cfg \<Longrightarrow>
   entry (m(topic \<mapsto> obj_set cfg key e)) topic key' = entry m topic key'"
  by (simp add: entry_def obj_get_obj_set)

lemma last_write_wins_method:
  assumes cfg: "topicToConfig st topic = Some cfg"
    and first: "\<And>s c. topicToConfig s topic = Some c \<Longrightarrow>
      first s = Inr (s\<lparr>topicToConfig := (topicToConfig s)(topic \<mapsto>
                        obj_set c key (obj_set (spread (obj_get c key)) kind v1))\<rparr>)"
    and second: "\<And>s c. topicToConfig s topic = Some c \<Longrightarrow>
      second s = Inr (s\<lparr>topicToConfig := (topicToConfig s)(topic \<mapsto>
                        obj_set c key (obj_set (spread (obj_get c key)) kind v2))\<rparr>)"
  shows "last_write_wins first second st topic key kind v2"
proof -
  let ?e = "spread (obj_get cfg key)"
  let ?c1 = "obj_set cfg key (obj_set ?e kind v1)"
  let ?st1 = "st\<lparr>topicToConfig := (topicToConfig st)(topic \<mapsto> ?c1)\<rparr>"
  let ?m2 = "(topicToConfig st)(topic \<mapsto> obj_set cfg key (obj_set ?e kind v2))"
  let ?st2 = "st\<lparr>topicToConfig := ?m2\<rparr>"
  have e: "entry (topicToConfig st) topic key = ?e"
    using cfg by (simp add: entry_def)
  have 1: "first st = Inr ?st1"
    using cfg by (rule first)
  have c1: "topicToConfig ?st1 topic = Some ?c1"
    by simp
  have "second ?st1 = Inr (?st1\<lparr>topicToConfig := (topicToConfig ?st1)(topic \<mapsto>
            obj_set ?c1 key (obj_set (spread (obj_get ?c1 key)) kind v2))\<rparr>)"
    using c1 by (rule second)
  then have 2: "second ?st1 = Inr ?st2"
    by (simp add: obj_get_obj_set obj_set_twice)
  have 3: "second st = Inr ?st2"
    using cfg by (rule second)
  have 4: "entry ?m2 topic key = obj_set ?e kind v2"
    by (simp add: entry_def obj_get_obj_set)
  have 5: "\<forall>key'. key' \<noteq> key \<longrightarrow> entry ?m2 topic key' = entry (topicToConfig st) topic key'"
    using cfg by (simp add: entry_other_key)
  have 6: "\<forall>u. u \<noteq> topic \<longrightarrow> ?m2 u = topicToConfig st u"
    by simp
  have 7: "obj_get (obj_set ?e kind v2) kind = Some v2
      \<and> (\<forall>k. k \<noteq> kind \<longrightarrow> obj_get (obj_set ?e kind v2) k = obj_get ?e k)
      \<and> (distinct (map fst ?e) \<longrightarrow> filter (\<lambda>kv. fst kv = kind) (obj_set ?e kind v2) = [(kind, v2)])"
    by (simp add: obj_get_obj_set filter_obj_set)
  have "first st = Inr ?st1 \<and> second ?st1 = Inr ?st2 \<and> second st = Inr ?st2
        \<and> ?st2 = st\<lparr>topicToConfig := topicToConfig ?st2\<rparr>
        \<and> obj_get (entry (topicToConfig ?st2) topic key) kind = Some v2
        \<and> (\<forall>k. k \<noteq> kind \<longrightarrow>
              obj_get (entry (topicToConfig ?st2) topic key) k
                = obj_get (entry (topicToConfig st) topic key) k)
        \<and> (distinct (map fst (entry (topicToConfig st) topic key)) \<longrightarrow>
              filter (\<lambda>kv. fst kv = kind) (entry (topicToConfig ?st2) topic key) = [(kind, v2)])
        \<and> (\<forall>key'. key' \<noteq> key \<longrightarrow>
              entry (topicToConfig ?st2) topic key' = entry (topicToConfig st) topic key')
        \<and> (\<forall>u. u \<noteq> topic \<longrightarrow> topicToConfig ?st2 u = topicToConfig st u)"
    using 1 2 3 5 6 7 by (simp add: 4 e)
  then show ?thesis
    unfolding last_write_wins_def by blast
qed

lemma aged_run: "lt main_instance ''abc456'' ''age'' (JNum 65) = Inr aged_instance"
  by (simp add: lt_def store_config_def numericalCompare_def aged_instance_def main_instance_def
      new_ZkPassport_def)

lemma aged_config:
  "topicToConfig aged_instance ''abc456'' = Some [(''age'', [(''lt'', JNum 65)])]"
  by (simp add: aged_instance_def)

lemma last_write_wins_entry:
  assumes "last_write_wins first second st topic key kind v"
  shows "\<exists>st1 st2. first st = Inr st1 \<and> second st1 = Inr st2 \<and> second st = Inr st2"
  using assms unfolding last_write_wins_def by blast

text \<open>
  Claim C9. For every session (a topic that has a configuration), credential key and
  predicate kind, calling the builder method of the kind (\<^verbatim>\<open>eq\<close>, \<^verbatim>\<open>gte\<close>, \<^verbatim>\<open>gt\<close>, \<^verbatim>\<open>lte\<close>,
  \<^verbatim>\<open>lt\<close>, \<^verbatim>\<open>range\<close>, \<^verbatim>\<open>in\<close>, \<^verbatim>\<open>out\<close>) twice on the same key, with a first value and then a
  second, succeeds and gives the instance that the second call alone gives: the entry of
  the key holds the second value for the kind, and holds the kind once when the names of
  the entry were distinct before; the predicates of the other kinds on the key, the
  entries of the other keys and the configurations of the other topics are as before,
  and nothing but the configuration changes.
\<close>

theorem builder_same_kind_overwrites:
  assumes "topicToConfig st topic = Some cfg"
  shows "last_write_wins (\<lambda>s. eq s topic key v1) (\<lambda>s. eq s topic key v2) st topic key ''eq'' v2
       \<and> last_write_wins (\<lambda>s. gte s topic key v1) (\<lambda>s. gte s topic key v2) st topic key ''gte'' v2
       \<and> last_write_wins (\<lambda>s. gt s topic key v1) (\<lambda>s. gt s topic key v2) st topic key ''gt'' v2
       \<and> last_write_wins (\<lambda>s. lte s topic key v1) (\<lambda>s. lte s topic key v2) st topic key ''lte'' v2
       \<and> last_write_wins (\<lambda>s. lt s topic key v1) (\<lambda>s. lt s topic key v2) st topic key ''lt'' v2
       \<and> last_write_wins (\<lambda>s. range_between s topic key a1 b1)
            (\<lambda>s. range_between s topic key a2 b2) st topic key ''range'' (JArr [a2, b2])
       \<and> last_write_wins (\<lambda>s. isin s topic key vs1) (\<lambda>s. isin s topic key vs2)
            st topic key ''in'' (JArr vs2)
       \<and> last_write_wins (\<lambda>s. out s topic key vs1) (\<lambda>s. out s topic key vs2)
            st topic key ''out'' (JArr vs2)"
proof (intro conjI)
  show "last_write_wins (\<lambda>s. eq s topic key v1) (\<lambda>s. eq s topic key v2) st topic key ''eq'' v2"
    by (rule last_write_wins_method [OF assms, where ?v1.0 = v1])
       (simp_all add: eq_def store_config_def generalCompare_def)
  show "last_write_wins (\<lambda>s. gte s topic key v1) (\<lambda>s. gte s topic key v2) st topic key ''gte'' v2"
    by (rule last_write_wins_method [OF assms, where ?v1.0 = v1])
       (simp_all add: gte_def store_config_def numericalCompare_def)
  show "last_write_wins (\<lambda>s. gt s topic key v1) (\<lambda>s. gt s topic key v2) st topic key ''gt'' v2"
    by (rule last_write_wins_method [OF assms, where ?v1.0 = v1])
       (simp_all add: gt_def store_config_def numericalCompare_def)
  show "last_write_wins (\<lambda>s. lte s topic key v1) (\<lambda>s. lte s topic key v2) st topic key ''lte'' v2"
    by (rule last_write_wins_method [OF assms, where ?v1.0 = v1])
       (simp_all add: lte_def store_config_def numericalCompare_def)
  show "last_write_wins (\<lambda>s. lt s topic key v1) (\<lambda>s. lt s topic key v2) st topic key ''lt'' v2"
    by (rule last_write_wins_method [OF assms, where ?v1.0 = v1])
       (simp_all add: lt_def store_config_def numericalCompare_def)
  show "last_write_wins (\<lambda>s. range_between s topic key a1 b1)
            (\<lambda>s. range_between s topic key a2 b2) st topic key ''range'' (JArr [a2, b2])"
    by (rule last_write_wins_method [OF assms, where ?v1.0 = "JArr [a1, b1]"])
       (simp_all add: range_between_def store_config_def rangeCompare_def)
  show "last_write_wins (\<lambda>s. isin s topic key vs1) (\<lambda>s. isin s topic key vs2)
            st topic key ''in'' (JArr vs2)"
    by (rule last_write_wins_method [OF assms, where ?v1.0 = "JArr vs1"])
       (simp_all add: isin_def store_config_def generalCompare_def)
  show "last_write_wins (\<lambda>s. out s topic key vs1) (\<lambda>s. out s topic key vs2)
            st topic key ''out'' (JArr vs2)"
    by (rule last_write_wins_method [OF assms, where ?v1.0 = "JArr vs1"])
       (simp_all add: out_def store_config_def generalCompare_def)
qed

theorem builder_same_kind_overwrites_witness:
  "topicToConfig aged_instance ''abc456'' = Some [(''age'', [(''lt'', JNum 65)])]
   \<and> distinct (map fst (entry (topicToConfig aged_instance) ''abc456'' ''age''))
   \<and> (\<exists>st1 st2. eq aged_instance ''abc456'' ''age'' (JNum 18) = Inr st1
          \<and> eq st1 ''abc456'' ''age'' (JNum 21) = Inr st2
          \<and> topicToConfig st2 ''abc456'' = Some [(''age'', [(''lt'', JNum 65), (''eq'', JNum 21)])])
   \<and> (\<exists>st1 st2. gte aged_instance ''abc456'' ''age'' (JNum 18) = Inr st1
          \<and> gte st1 ''abc456'' ''age'' (JNum 21) = Inr st2
          \<and> topicToConfig st2 ''abc456'' = Some [(''age'', [(''lt'', JNum 65), (''gte'', JNum 21)])])
   \<and> (\<exists>st1 st2. gt aged_instance ''abc456'' ''age'' (JNum 18) = Inr st1
          \<and> gt st1 ''abc456'' ''age'' (JNum 21) = Inr st2
          \<and> topicToConfig st2 ''abc456'' = Some [(''age'', [(''lt'', JNum 65), (''gt'', JNum 21)])])
   \<and> (\<exists>st1 st2. lte aged_instance ''abc456'' ''age'' (JNum 18) = Inr st1
          \<and> lte st1 ''abc456'' ''age'' (JNum 21) = Inr st2
          \<and> topicToConfig st2 ''abc456'' = Some [(''age'', [(''lt'', JNum 65), (''lte'', JNum 21)])])
   \<and> (\<exists>st1 st2. lt aged_instance ''abc456'' ''age'' (JNum 18) = Inr st1
          \<and> lt st1 ''abc456'' ''age'' (JNum 21) = Inr st2
          \<and> topicToConfig st2 ''abc456'' = Some [(''age'', [(''lt'', JNum 21)])])
   \<and> (\<exists>st1 st2. range_between aged_instance ''abc456'' ''age'' (JNum 18) (JNum 25) = Inr st1
          \<and> range_between st1 ''abc456'' ''age'' (JNum 21) (JNum 30) = Inr st2
          \<and> topicToConfig st2 ''abc456''
              = Some [(''age'', [(''lt'', JNum 65), (''range'', JArr [JNum 21, JNum 30])])])
   \<and> (\<exists>st1 st2. isin aged_instance ''abc456'' ''age'' [JNum 18] = Inr st1
          \<and> isin st1 ''abc456'' ''age'' [JNum 21, JNum 30] = Inr st2
          \<and> topicToConfig st2 ''abc456''
              = Some [(''age'', [(''lt'', JNum 65), (''in'', JArr [JNum 21, JNum 30])])])
   \<and> (\<exists>st1 st2. out aged_instance ''abc456'' ''age'' [JNum 18] = Inr st1
          \<and> out st1 ''abc456'' ''age'' [JNum 21, JNum 30] = Inr st2
          \<and> topicToConfig st2 ''abc456''
              = Some [(''age'', [(''lt'', JNum 65), (''out'', JArr [JNum 21, JNum 30])])])"
proof -
  note t = builder_same_kind_overwrites [OF aged_config, where key = "''age''" and ?v1.0 = "JNum 18"
      and ?v2.0 = "JNum 21" and ?a1.0 = "JNum 18" and ?b1.0 = "JNum 25" and ?a2.0 = "JNum 21"
      and ?b2.0 = "JNum 30" and ?vs1.0 = "[JNum 18]" and ?vs2.0 = "[JNum 21, JNum 30]"]
  have 1: "\<exists>st1 st2. eq aged_instance ''abc456'' ''age'' (JNum 18) = Inr st1
          \<and> eq st1 ''abc456'' ''age'' (JNum 21) = Inr st2
          \<and> topicToConfig st2 ''abc456'' = Some [(''age'', [(''lt'', JNum 65), (''eq'', JNum 21)])]"
  proof -
    from last_write_wins_entry [OF t [THEN conjunct1]] obtain st1 st2 where
      r: "eq aged_instance ''abc456'' ''age'' (JNum 18) = Inr st1"
        "eq st1 ''abc456'' ''age'' (JNum 21) = Inr st2"
        "eq aged_instance ''abc456'' ''age'' (JNum 21) = Inr st2"
      by blast
    from r(3) have "topicToConfig st2 ''abc456'' = Some [(''age'', [(''lt'', JNum 65), (''eq'', JNum 21)])]"
      by (auto simp: eq_def store_config_def generalCompare_def aged_instance_def)
    with r show ?thesis by blast
  qed
  have 2: "\<exists>st1 st2. gte aged_instance ''abc456'' ''age'' (JNum 18) = Inr st1
          \<and> gte st1 ''abc456'' ''age'' (JNum 21) = Inr st2
          \<and> topicToConfig st2 ''abc456'' = Some [(''age'', [(''lt'', JNum 65), (''gte'', JNum 21)])]"
  proof -
    from last_write_wins_entry [OF t [THEN conjunct2, THEN conjunct1]] obtain st1 st2 where
      r: "gte aged_instance ''abc456'' ''age'' (JNum 18) = Inr st1"
        "gte st1 ''abc456'' ''age'' (JNum 21) = Inr st2"
        "gte aged_instance ''abc456'' ''age'' (JNum 21) = Inr st2"
      by blast
    from r(3) have "topicToConfig st2 ''abc456'' = Some [(''age'', [(''lt'', JNum 65), (''gte'', JNum 21)])]"
      by (auto simp: gte_def store_config_def numericalCompare_def aged_instance_def)
    with r show ?thesis by blast
  qed
  have 3: "\<exists>st1 st2. gt aged_instance ''abc456'' ''age'' (JNum 18) = Inr st1
          \<and> gt st1 ''abc456'' ''age'' (JNum 21) = Inr st2
          \<and> topicToConfig st2 ''abc456'' = Some [(''age'', [(''lt'', JNum 65), (''gt'', JNum 21)])]"
  proof -
    from last_write_wins_entry [OF t [THEN conjunct2, THEN conjunct2, THEN conjunct1]]
    obtain st1 st2 where
      r: "gt aged_instance ''abc456'' ''age'' (JNum 18) = Inr st1"
        "gt st1 ''abc456'' ''age'' (JNum 21) = Inr st2"
        "gt aged_instance ''abc456'' ''age'' (JNum 21) = Inr st2"
      by blast
    from r(3) have "topicToConfig st2 ''abc456'' = Some [(''age'', [(''lt'', JNum 65), (''gt'', JNum 21)])]"
      by (auto simp: gt_def store_config_def numericalCompare_def aged_instance_def)
    with r show ?thesis by blast
  qed
  have 4: "\<exists>st1 st2. lte aged_instance ''abc456'' ''age'' (JNum 18) = Inr st1
          \<and> lte st1 ''abc456'' ''age'' (JNum 21) = Inr st2
          \<and> topicToConfig st2 ''abc456'' = Some [(''age'', [(''lt'', JNum 65), (''lte'', JNum 21)])]"
  proof -
    from last_write_wins_entry [OF t [THEN conjunct2, THEN conjunct2, THEN conjunct2, THEN conjunct1]]
    obtain st1 st2 where
      r: "lte aged_instance ''abc456'' ''age'' (JNum 18) = Inr st1"
        "lte st1 ''abc456'' ''age'' (JNum 21) = Inr st2"
        "lte aged_instance ''abc456'' ''age'' (JNum 21) = Inr st2"
      by blast
    from r(3) have "topicToConfig st2 ''abc456'' = Some [(''age'', [(''lt'', JNum 65), (''lte'', JNum 21)])]"
      by (auto simp: lte_def store_config_def numericalCompare_def aged_instance_def)
    with r show ?thesis by blast
  qed
  have 5: "\<exists>st1 st2. lt aged_instance ''abc456'' ''age'' (JNum 18) = Inr st1
          \<and> lt st1 ''abc456'' ''age'' (JNum 21) = Inr st2
          \<and> topicToConfig st2 ''abc456'' = Some [(''age'', [(''lt'', JNum 21)])]"
  proof -
    from last_write_wins_entry [OF t [THEN conjunct2, THEN conjunct2, THEN conjunct2, THEN conjunct2,
        THEN conjunct1]]
    obtain st1 st2 where
      r: "lt aged_instance ''abc456'' ''age'' (JNum 18) = Inr st1"
        "lt st1 ''abc456'' ''age'' (JNum 21) = Inr st2"
        "lt aged_instance ''abc456'' ''age'' (JNum 21) = Inr st2"
      by blast
    from r(3) have "topicToConfig st2 ''abc456'' = Some [(''age'', [(''lt'', JNum 21)])]"
      by (auto simp: lt_def store_config_def numericalCompare_def aged_instance_def)
    with r show ?thesis by blast
  qed
  have 6: "\<exists>st1 st2. range_between aged_instance ''abc456'' ''age'' (JNum 18) (JNum 25) = Inr st1
          \<and> range_between st1 ''abc456'' ''age'' (JNum 21) (JNum 30) = Inr st2
          \<and> topicToConfig st2 ''abc456''
              = Some [(''age'', [(''lt'', JNum 65), (''range'', JArr [JNum 21, JNum 30])])]"
  proof -
    from last_write_wins_entry [OF t [THEN conjunct2, THEN conjunct2, THEN conjunct2, THEN conjunct2,
        THEN conjunct2, THEN conjunct1]]
    obtain st1 st2 where
      r: "range_between aged_instance ''abc456'' ''age'' (JNum 18) (JNum 25) = Inr st1"
        "range_between st1 ''abc456'' ''age'' (JNum 21) (JNum 30) = Inr st2"
        "range_between aged_instance ''abc456'' ''age'' (JNum 21) (JNum 30) = Inr st2"
      by blast
    from r(3) have "topicToConfig st2 ''abc456''
              = Some [(''age'', [(''lt'', JNum 65), (''range'', JArr [JNum 21, JNum 30])])]"
      by (auto simp: range_between_def store_config_def rangeCompare_def aged_instance_def)
    with r show ?thesis by blast
  qed
  have 7: "\<exists>st1 st2. isin aged_instance ''abc456'' ''age'' [JNum 18] = Inr st1
          \<and> isin st1 ''abc456'' ''age'' [JNum 21, JNum 30] = Inr st2
          \<and> topicToConfig st2 ''abc456''
              = Some [(''age'', [(''lt'', JNum 65), (''in'', JArr [JNum 21, JNum 30])])]"
  proof -
    from last_write_wins_entry [OF t [THEN conjunct2, THEN conjunct2, THEN conjunct2, THEN conjunct2,
        THEN conjunct2, THEN conjunct2, THEN conjunct1]]
    obtain st1 st2 where
      r: "isin aged_instance ''abc456'' ''age'' [JNum 18] = Inr st1"
        "isin st1 ''abc456'' ''age'' [JNum 21, JNum 30] = Inr st2"
        "isin aged_instance ''abc456'' ''age'' [JNum 21, JNum 30] = Inr st2"
      by blast
    from r(3) have "topicToConfig st2 ''abc456''
              = Some [(''age'', [(''lt'', JNum 65), (''in'', JArr [JNum 21, JNum 30])])]"
      by (auto simp: isin_def store_config_def generalCompare_def aged_instance_def)
    with r show ?thesis by blast
  qed
  have 8: "\<exists>st1 st2. out aged_instance ''abc456'' ''age'' [JNum 18] = Inr st1
          \<and> out st1 ''abc456'' ''age'' [JNum 21, JNum 30] = Inr st2
          \<and> topicToConfig st2 ''abc456''
              = Some [(''age'', [(''lt'', JNum 65), (''out'', JArr [JNum 21, JNum 30])])]"
  proof -
    from last_write_wins_entry [OF t [THEN conjunct2, THEN conjunct2, THEN conjunct2, THEN conjunct2,
        THEN conjunct2, THEN conjunct2, THEN conjunct2]]
    obtain st1 st2 where
      r: "out aged_instance ''abc456'' ''age'' [JNum 18] = Inr st1"
        "out st1 ''abc456'' ''age'' [JNum 21, JNum 30] = Inr st2"
        "out aged_instance ''abc456'' ''age'' [JNum 21, JNum 30] = Inr st2"
      by blast
    from r(3) have "topicToConfig st2 ''abc456''
              = Some [(''age'', [(''lt'', JNum 65), (''out'', JArr [JNum 21, JNum 30])])]"
      by (auto simp: out_def store_config_def generalCompare_def aged_instance_def)
    with r show ?thesis by blast
  qed
  have 0: "distinct (map fst (entry (topicToConfig aged_instance) ''abc456'' ''age''))"
    by (simp add: entry_def aged_instance_def)
  from aged_config 0 1 2 3 4 5 6 7 8 show ?thesis
    by (intro conjI)
qed

section \<open>The scenarios are runs of the code\<close>

lemma request_main: "request (new_ZkPassport ''https://demo.zkpassport.id'') (Some ''abc456'') (Some main_keyPair) (no_fresh 1)
  = Inr (main_instance, \<lparr>l_topic = ''abc456'', l_keyPair = main_keyPair, l_wsClient = 1\<rparr>,
     [Open 1 ''wss://bridge.zkpassport.id?topic=abc456'' ''https://demo.zkpassport.id''])"
  by (simp add: request_def choose_keyPair_def choose_topic_def no_fresh_def main_instance_def new_ZkPassport_def main_keyPair_def Let_def)

lemma request_second: "request main_instance (Some ''def789'') (Some short_keyPair) (no_fresh 2)
  = Inr (two_sessions, listener_def789,
     [Open 2 ''wss://bridge.zkpassport.id?topic=def789'' ''https://demo.zkpassport.id''])"
  by (simp add: request_def choose_keyPair_def choose_topic_def no_fresh_def main_instance_def new_ZkPassport_def two_sessions_def listener_def789_def short_keyPair_def Let_def)


lemma done_main: "done_descriptor main_instance ''abc456'' = Inr descriptor_abc456"
  by (simp add: done_descriptor_def main_instance_def new_ZkPassport_def descriptor_abc456_def
      main_keyPair_def bytesToHex_def hex_digit_def request_url_def config_json_def toBase64_def
      b64_char_def base64_alphabet_def)

lemma getUrl_main: "getUrl main_instance ''abc456'' = Inr ''https://zkpassport.id/r?d=https://demo.zkpassport.id&t=abc456&c=[object Object]&p=02d3ff5e5db7c48c34880bc11e8b457a4b9a6bf2a2f545cf575eb941b08f04adc4''"
  by (simp add: getUrl_def main_instance_def new_ZkPassport_def main_keyPair_def bytesToHex_def hex_digit_def request_url_def template_def config_json_def)

section \<open>The two URLs of a request\<close>

lemma b64_char_in_alphabet: "b64_char n \<in> set base64_alphabet"
proof -
  have "n mod 64 < length base64_alphabet"
    by (simp add: base64_alphabet_def)
  then show ?thesis
    unfolding b64_char_def by (rule nth_mem)
qed

lemma b64_char_not_bracket: "b64_char n \<noteq> CHR ''[''"
proof
  assume "b64_char n = CHR ''[''"
  with b64_char_in_alphabet [of n] have "CHR ''['' \<in> set base64_alphabet"
    by simp
  then show False
    by (simp add: base64_alphabet_def)
qed

lemma base64_encode_no_bracket: "CHR ''['' \<notin> set (base64_encode xs)"
  by (induction xs rule: base64_encode.induct)
    (simp_all add: b64_char_not_bracket b64_char_not_bracket [symmetric])

lemma object_text_not_base64:
  "''[object Object]'' @ r \<noteq> base64_encode xs @ CHR ''&'' # r'"
proof (cases "base64_encode xs")
  case Nil
  then show ?thesis by simp
next
  case (Cons c cs)
  with base64_encode_no_bracket [of xs] have "c \<noteq> CHR ''[''"
    by auto
  with Cons show ?thesis by auto
qed

lemma request_url_differs:
  "request_url d t ''[object Object]'' p \<noteq> request_url d t (toBase64 s) p"
  using object_text_not_base64 [of "''&p='' @ p" "map of_char s" "''p='' @ p"]
  by (simp add: request_url_def toBase64_def)

text \<open>
  Claim C4 (fails on the code). The claim: for a live session, \<^verbatim>\<open>getUrl(topic)\<close> and the
  \<^verbatim>\<open>url\<close> of the descriptor returned by \<^verbatim>\<open>done()\<close> are equal, and both carry the base64 of
  the JSON-serialised configuration. What the code does: for every topic with a
  configuration and a key pair both calls return a URL with the same domain, topic and
  public key, but \<^verbatim>\<open>getUrl\<close> puts the text \<^verbatim>\<open>[object Object]\<close> where \<^verbatim>\<open>done()\<close> puts the base64
  text, and the two URLs are never equal.
\<close>

theorem getUrl_differs_from_done_url:
  assumes "topicToConfig st t = Some cfg" and "topicToKeyPair st t = Some kp"
  shows "\<exists>u d. getUrl st t = Inr u \<and> done_descriptor st t = Inr d \<and> u \<noteq> url d
           \<and> u = request_url (domain st) t ''[object Object]'' (bytesToHex (publicKey kp))
           \<and> url d = request_url (domain st) t (toBase64 (JSON_stringify (config_json cfg)))
                        (bytesToHex (publicKey kp))"
  using assms request_url_differs
  by (simp add: getUrl_def done_descriptor_def template_def config_json_def)

theorem getUrl_differs_from_done_url_witness:
  "topicToConfig main_instance ''abc456'' = Some []
   \<and> topicToKeyPair main_instance ''abc456'' = Some main_keyPair
   \<and> (\<exists>u d. getUrl main_instance ''abc456'' = Inr u
          \<and> done_descriptor main_instance ''abc456'' = Inr d \<and> u \<noteq> url d
          \<and> u = request_url (domain main_instance) ''abc456'' ''[object Object]''
                  (bytesToHex (publicKey main_keyPair))
          \<and> url d = request_url (domain main_instance) ''abc456''
                  (toBase64 (JSON_stringify (config_json []))) (bytesToHex (publicKey main_keyPair)))"
proof -
  have c: "topicToConfig main_instance ''abc456'' = Some []"
    by (simp add: main_instance_def)
  have k: "topicToKeyPair main_instance ''abc456'' = Some main_keyPair"
    by (simp add: main_instance_def)
  from c k getUrl_differs_from_done_url [OF c k] show ?thesis
    by (rule conjI [OF _ conjI])
qed

section \<open>Cancelling a request\<close>

text \<open>
  Claim C10. For every topic with a WebSocket client, \<^verbatim>\<open>cancelRequest(topic)\<close> closes the
  client, deletes the key pair, configuration, client and shared secret entries of that
  topic and of no other topic, empties the \<^verbatim>\<open>onQRCodeScanned\<close>, \<^verbatim>\<open>onGeneratingProof\<close>,
  \<^verbatim>\<open>onProofGenerated\<close> and \<^verbatim>\<open>onError\<close> registries of the whole instance (whatever session
  registered the callbacks), and leaves the \<^verbatim>\<open>onReject\<close> registry as it was.
\<close>

theorem cancelRequest_frame:
  assumes "topicToWebSocketClient st t = Some ws"
  shows "\<exists>st'. cancelRequest st t = Inr (st', [Close ws])
           \<and> topicToKeyPair st' t = None \<and> topicToConfig st' t = None
           \<and> topicToWebSocketClient st' t = None \<and> topicToSharedSecret st' t = None
           \<and> (\<forall>u. u \<noteq> t \<longrightarrow>
                 topicToKeyPair st' u = topicToKeyPair st u
               \<and> topicToConfig st' u = topicToConfig st u
               \<and> topicToWebSocketClient st' u = topicToWebSocketClient st u
               \<and> topicToSharedSecret st' u = topicToSharedSecret st u)
           \<and> qrCodeScannedCallbacks st' = [] \<and> onGeneratingProofCallbacks st' = []
           \<and> onProofGeneratedCallbacks st' = [] \<and> onErrorCallbacks st' = []
           \<and> onRejectCallbacks st' = onRejectCallbacks st
           \<and> domain st' = domain st"
  using assms by (simp add: cancelRequest_def)

theorem cancelRequest_frame_witness:
  "topicToWebSocketClient subscribed ''def789'' = Some 2
   \<and> qrCodeScannedCallbacks subscribed = [Callback 1 False]
   \<and> onRejectCallbacks subscribed = [Callback 4 False]
   \<and> topicToKeyPair subscribed ''abc456'' = Some main_keyPair
   \<and> (\<exists>st'. cancelRequest subscribed ''def789'' = Inr (st', [Close 2])
           \<and> topicToKeyPair st' ''def789'' = None \<and> topicToConfig st' ''def789'' = None
           \<and> topicToWebSocketClient st' ''def789'' = None \<and> topicToSharedSecret st' ''def789'' = None
           \<and> (\<forall>u. u \<noteq> ''def789'' \<longrightarrow>
                 topicToKeyPair st' u = topicToKeyPair subscribed u
               \<and> topicToConfig st' u = topicToConfig subscribed u
               \<and> topicToWebSocketClient st' u = topicToWebSocketClient subscribed u
               \<and> topicToSharedSecret st' u = topicToSharedSecret subscribed u)
           \<and> qrCodeScannedCallbacks st' = [] \<and> onGeneratingProofCallbacks st' = []
           \<and> onProofGeneratedCallbacks st' = [] \<and> onErrorCallbacks st' = []
           \<and> onRejectCallbacks st' = onRejectCallbacks subscribed
           \<and> domain st' = domain subscribed)"
proof -
  have s: "topicToWebSocketClient subscribed ''def789'' = Some 2"
    "qrCodeScannedCallbacks subscribed = [Callback 1 False]"
    "onRejectCallbacks subscribed = [Callback 4 False]"
    "topicToKeyPair subscribed ''abc456'' = Some main_keyPair"
    by (simp_all add: subscribed_def two_sessions_def main_instance_def new_ZkPassport_def
        onError_def onReject_def onProofGenerated_def onGeneratingProof_def onQRCodeScanned_def)
  from s cancelRequest_frame [OF s(1)] show ?thesis
    by (intro conjI)
qed

text \<open>
  Claim C6, as stated: for a topic with no live session, \<^verbatim>\<open>cancelRequest(topic)\<close> is a
  no-op that returns normally. It fails on the code: on a new instance, and on an instance
  whose only request has just been cancelled, the call throws a TypeError.
\<close>

theorem cancelRequest_not_idempotent:
  "cancelRequest (new_ZkPassport ''https://demo.zkpassport.id'') ''abc456'' = Inl TypeError
   \<and> (\<exists>st' es. cancelRequest main_instance ''abc456'' = Inr (st', es)
          \<and> cancelRequest st' ''abc456'' = Inl TypeError)"
  by (simp add: cancelRequest_def new_ZkPassport_def main_instance_def)

text \<open>
  Claim C6, amended. For every topic that has no WebSocket client entry (never created,
  or already cancelled), \<^verbatim>\<open>cancelRequest(topic)\<close> throws a TypeError and returns no new
  state; in particular a second cancellation of a topic throws.
\<close>

theorem cancelRequest_absent_raises:
  "(topicToWebSocketClient st t = None \<longrightarrow> cancelRequest st t = Inl TypeError)
   \<and> (\<forall>st' es. cancelRequest st t = Inr (st', es) \<longrightarrow> cancelRequest st' t = Inl TypeError)"
  by (auto simp: cancelRequest_def split: option.splits)

theorem cancelRequest_absent_raises_witness:
  "topicToWebSocketClient (new_ZkPassport ''https://demo.zkpassport.id'') ''abc456'' = None
   \<and> cancelRequest (new_ZkPassport ''https://demo.zkpassport.id'') ''abc456'' = Inl TypeError
   \<and> (\<exists>st'. cancelRequest main_instance ''abc456'' = Inr (st', [Close 1])
          \<and> cancelRequest st' ''abc456'' = Inl TypeError)"
proof -
  have h: "topicToWebSocketClient (new_ZkPassport ''https://demo.zkpassport.id'') ''abc456'' = None"
    by (simp add: new_ZkPassport_def)
  have a: "cancelRequest (new_ZkPassport ''https://demo.zkpassport.id'') ''abc456'' = Inl TypeError"
    by (rule cancelRequest_absent_raises [THEN conjunct1, THEN mp, OF h])
  have "topicToWebSocketClient main_instance ''abc456'' = Some 1"
    by (simp add: main_instance_def)
  then have "\<exists>st'. cancelRequest main_instance ''abc456'' = Inr (st', [Close 1])"
    by (simp add: cancelRequest_def)
  then obtain st' where c: "cancelRequest main_instance ''abc456'' = Inr (st', [Close 1])" ..
  have b: "cancelRequest st' ''abc456'' = Inl TypeError"
    by (rule cancelRequest_absent_raises [THEN conjunct2, THEN spec, THEN spec, THEN mp, OF c])
  from c b have "\<exists>st'. cancelRequest main_instance ''abc456'' = Inr (st', [Close 1])
          \<and> cancelRequest st' ''abc456'' = Inl TypeError"
    by (intro exI conjI)
  with h a show ?thesis by (intro conjI)
qed

section \<open>The AML check\<close>

text \<open>
  Claim C8, as stated: \<^verbatim>\<open>checkAML(country?)\<close> records the AML flag in the configuration, so
  that it appears in the snapshot serialised by \<^verbatim>\<open>done()\<close>. It fails on the code: after
  \<^verbatim>\<open>checkAML('FRA')\<close> on the new request of \<^verbatim>\<open>main()\<close> the configuration is still empty, its
  serialisation is \<^verbatim>\<open>{}\<close> and the URL carries \<^verbatim>\<open>c=e30=\<close>.
\<close>

theorem checkAML_flag_not_serialised:
  "topicToConfig (checkAML main_instance ''abc456'' (Some ''FRA'')) ''abc456'' = Some []
   \<and> JSON_stringify (config_json []) = ''{}''
   \<and> done_descriptor (checkAML main_instance ''abc456'' (Some ''FRA'')) ''abc456''
       = Inr \<lparr>url = ''https://zkpassport.id/r?d=https://demo.zkpassport.id&t=abc456&c=e30=&p=02d3ff5e5db7c48c34880bc11e8b457a4b9a6bf2a2f545cf575eb941b08f04adc4'',
              requestId = ''abc456''\<rparr>"
  by (simp add: checkAML_def done_descriptor_def main_instance_def new_ZkPassport_def
      main_keyPair_def bytesToHex_def hex_digit_def request_url_def config_json_def toBase64_def
      b64_char_def base64_alphabet_def)

text \<open>
  Claim C8, amended. \<^verbatim>\<open>checkAML(country?)\<close> changes nothing in the instance: it records
  neither a flag nor a country, it adds no comparison predicate for any credential key of
  any topic, and \<^verbatim>\<open>done()\<close> returns the same descriptor after the call as before it.
\<close>

theorem checkAML_changes_nothing:
  "checkAML st t country = st
   \<and> topicToConfig (checkAML st t country) = topicToConfig st
   \<and> entry (topicToConfig (checkAML st t country)) topic key = entry (topicToConfig st) topic key
   \<and> done_descriptor (checkAML st t country) topic = done_descriptor st topic
   \<and> getUrl (checkAML st t country) topic = getUrl st topic"
  by (simp add: checkAML_def)

section \<open>A request for a topic that is live\<close>

text \<open>
  Claim C5, as stated: \<^verbatim>\<open>request()\<close> with a \<^verbatim>\<open>topicOverride\<close> equal to the topic of a live
  session fails with a ConfigurationError and leaves the session unchanged. It fails on the
  code: on the instance of \<^verbatim>\<open>main()\<close> after \<^verbatim>\<open>eq('fullname', 'John Doe')\<close>, a second
  \<^verbatim>\<open>request\<close> for \<^verbatim>\<open>abc456\<close> succeeds, and the topic then has an empty configuration, the
  new key pair and the new client.
\<close>

theorem request_override_overwrites_session:
  "eq main_instance ''abc456'' ''fullname'' (JStr ''John Doe'') = Inr named_instance
   \<and> topicToConfig named_instance ''abc456'' = Some [(''fullname'', [(''eq'', JStr ''John Doe'')])]
   \<and> topicToKeyPair named_instance ''abc456'' = Some main_keyPair
   \<and> topicToWebSocketClient named_instance ''abc456'' = Some 1
   \<and> (\<exists>st' l es. request named_instance (Some ''abc456'') (Some short_keyPair) (no_fresh 2)
                     = Inr (st', l, es)
          \<and> topicToConfig st' ''abc456'' = Some []
          \<and> topicToKeyPair st' ''abc456'' = Some short_keyPair
          \<and> topicToWebSocketClient st' ''abc456'' = Some 2)"
  by (simp add: eq_def store_config_def generalCompare_def named_instance_def main_instance_def
      new_ZkPassport_def spread_def request_def choose_keyPair_def choose_topic_def no_fresh_def
      Let_def short_keyPair_def)

text \<open>
  Claim C5, amended. If \<^verbatim>\<open>request()\<close> is called with a non-empty \<^verbatim>\<open>topicOverride\<close> equal to
  the topic of a live session, and a key pair is supplied or generated, the call succeeds:
  it replaces the key pair and the client of the topic by the new ones (the old client is
  not closed), resets the configuration of the topic to the empty one, and leaves its
  shared secret, every other topic and the callback registries unchanged.
\<close>

theorem request_override_replaces:
  assumes "t \<noteq> []"
    and "choose_keyPair keyPairOverride (generatedKeyPair fr) = Inr kp"
    and "topicToWebSocketClient st t = Some ws0"
  shows "\<exists>st'. request st (Some t) keyPairOverride fr
             = Inr (st', \<lparr>l_topic = t, l_keyPair = kp, l_wsClient = newWebSocketClient fr\<rparr>,
                    [Open (newWebSocketClient fr) (''wss://bridge.zkpassport.id?topic='' @ t) (domain st)])
           \<and> topicToKeyPair st' t = Some kp
           \<and> topicToConfig st' t = Some []
           \<and> topicToWebSocketClient st' t = Some (newWebSocketClient fr)
           \<and> topicToSharedSecret st' = topicToSharedSecret st
           \<and> (\<forall>u. u \<noteq> t \<longrightarrow>
                 topicToKeyPair st' u = topicToKeyPair st u
               \<and> topicToConfig st' u = topicToConfig st u
               \<and> topicToWebSocketClient st' u = topicToWebSocketClient st u)
           \<and> qrCodeScannedCallbacks st' = qrCodeScannedCallbacks st
           \<and> onGeneratingProofCallbacks st' = onGeneratingProofCallbacks st
           \<and> onProofGeneratedCallbacks st' = onProofGeneratedCallbacks st
           \<and> onRejectCallbacks st' = onRejectCallbacks st
           \<and> onErrorCallbacks st' = onErrorCallbacks st"
  using assms by (simp add: request_def choose_topic_def Let_def)

theorem request_override_replaces_witness:
  "''abc456'' \<noteq> []
   \<and> choose_keyPair (Some short_keyPair) (generatedKeyPair (no_fresh 2)) = Inr short_keyPair
   \<and> topicToWebSocketClient named_instance ''abc456'' = Some 1
   \<and> (\<exists>st'. request named_instance (Some ''abc456'') (Some short_keyPair) (no_fresh 2)
             = Inr (st', \<lparr>l_topic = ''abc456'', l_keyPair = short_keyPair, l_wsClient = 2\<rparr>,
                    [Open 2 ''wss://bridge.zkpassport.id?topic=abc456'' ''https://demo.zkpassport.id''])
           \<and> topicToKeyPair st' ''abc456'' = Some short_keyPair
           \<and> topicToConfig st' ''abc456'' = Some []
           \<and> topicToWebSocketClient st' ''abc456'' = Some 2)"
proof -
  have h1: "''abc456'' \<noteq> []" by simp
  have h2: "choose_keyPair (Some short_keyPair) (generatedKeyPair (no_fresh 2)) = Inr short_keyPair"
    by (simp add: choose_keyPair_def)
  have h3: "topicToWebSocketClient named_instance ''abc456'' = Some 1"
    by (simp add: named_instance_def main_instance_def)
  have d: "domain named_instance = ''https://demo.zkpassport.id''"
    by (simp add: named_instance_def main_instance_def new_ZkPassport_def)
  have w: "newWebSocketClient (no_fresh 2) = 2"
    by (simp add: no_fresh_def)
  from request_override_replaces [OF h1 h2 h3]
  obtain st' where
    "request named_instance (Some ''abc456'') (Some short_keyPair) (no_fresh 2)
       = Inr (st', \<lparr>l_topic = ''abc456'', l_keyPair = short_keyPair, l_wsClient = 2\<rparr>,
              [Open 2 ''wss://bridge.zkpassport.id?topic=abc456'' ''https://demo.zkpassport.id''])"
    "topicToKeyPair st' ''abc456'' = Some short_keyPair"
    "topicToConfig st' ''abc456'' = Some []"
    "topicToWebSocketClient st' ''abc456'' = Some 2"
    unfolding d w by auto
  with h1 h2 h3 show ?thesis by blast
qed

section \<open>What the message listener does\<close>

lemma calls_append: "calls (xs @ ys) = calls xs @ calls ys"
  by (induction xs rule: calls.induct) simp_all

lemma calls_forEach: "calls (fst (forEach cbs args)) = map (\<lambda>c. (c, args)) (reached cbs)"
  by (induction cbs) (simp_all add: case_prod_beta)

lemma reached_subset: "set (reached cbs) \<subseteq> set cbs"
  by (induction cbs) auto

lemma reached_no_throw: "\<forall>c \<in> set cbs. \<not> cb_throws c \<Longrightarrow> reached (cbs @ cs) = cbs @ reached cs"
  by (induction cbs) simp_all

lemma catch_log_calls: "calls (catch_log r) = []"
  by (cases r) (simp_all add: catch_log_def)

lemma on_message_encrypted:
  assumes "JSON_parse ext event_data = Inr data" and "has_method data ''encryptedMessage''"
  shows "on_message ext l st event_data
           = (st, Log LogDebug ''Received message:'' # fst (on_encryptedMessage ext l st data)
                    @ catch_log (snd (on_encryptedMessage ext l st data)))"
  using assms by (simp add: on_message_def Let_def has_method_def split: prod.splits)

lemma on_message_handshake:
  assumes "JSON_parse ext event_data = Inr data" and "has_method data ''handshake''"
  shows "on_message ext l st event_data
           = (fst (on_handshake ext l st data),
              Log LogDebug ''Received message:'' # fst (snd (on_handshake ext l st data))
                @ catch_log (snd (snd (on_handshake ext l st data))))"
  using assms by (simp add: on_message_def Let_def has_method_def split: prod.splits)

lemma forEach_calls_mem: "x \<in> set (calls (fst (forEach cbs args))) \<Longrightarrow> fst x \<in> set cbs"
  using reached_subset [of cbs] by (auto simp: calls_forEach)

lemma forEach_param_calls:
  "calls (fst (forEach_param cbs req x))
     = (if cbs = [] then []
        else case get_prop (Some req) ''params'' of
               Inl e \<Rightarrow> []
             | Inr p \<Rightarrow> (case get_prop p x of Inl e \<Rightarrow> [] | Inr v \<Rightarrow> calls (fst (forEach cbs [v]))))"
  by (simp add: forEach_param_def split: sum.splits)

lemma forEach_param_calls_mem:
  "x \<in> set (calls (fst (forEach_param cbs req k))) \<Longrightarrow> fst x \<in> set cbs"
  by (auto simp: forEach_param_calls dest: forEach_calls_mem split: if_splits sum.splits)

lemma handleEncryptedMessage_calls:
  "calls (fst (handleEncryptedMessage st topic req))
     = (case get_prop (Some req) ''method'' of
          Inl e \<Rightarrow> []
        | Inr m \<Rightarrow>
            if m = Some (JStr ''accept'')
              then calls (fst (forEach (onGeneratingProofCallbacks st) [Some (JStr topic)]))
            else if m = Some (JStr ''reject'') then calls (fst (forEach (onRejectCallbacks st) []))
            else if m = Some (JStr ''done'')
              then calls (fst (forEach_param (onProofGeneratedCallbacks st) req ''proof''))
            else if m = Some (JStr ''error'')
              then calls (fst (forEach_param (onErrorCallbacks st) req ''error''))
            else [])"
  by (simp add: handleEncryptedMessage_def Let_def calls_append case_prod_beta split: sum.splits)

lemma handleEncryptedMessage_calls_mem:
  assumes "x \<in> set (calls (fst (handleEncryptedMessage st topic req)))"
  shows "fst x \<in> set (onGeneratingProofCallbacks st) \<union> set (onRejectCallbacks st)
           \<union> set (onProofGeneratedCallbacks st) \<union> set (onErrorCallbacks st)"
proof (cases "get_prop (Some req) ''method''")
  case (Inl e)
  with assms show ?thesis by (simp add: handleEncryptedMessage_calls)
next
  case (Inr m)
  with assms show ?thesis
    by (auto simp: handleEncryptedMessage_calls dest: forEach_calls_mem forEach_param_calls_mem
        split: if_splits)
qed

lemma on_encryptedMessage_calls:
  "calls (fst (on_encryptedMessage ext l st data))
     = (case decode_payload data of
          Inl e \<Rightarrow> []
        | Inr payload \<Rightarrow>
            (case decrypt_and_parse ext l st payload of
               Inl e \<Rightarrow> []
             | Inr req \<Rightarrow> calls (fst (handleEncryptedMessage st (l_topic l) req))))"
proof (cases "decode_payload data")
  case (Inl e)
  then show ?thesis by (simp add: on_encryptedMessage_def)
next
  case p: (Inr payload)
  show ?thesis
  proof (cases "decrypt_and_parse ext l st payload")
    case (Inl e)
    with p show ?thesis by (simp add: on_encryptedMessage_def decrypt_and_handle_def)
  next
    case (Inr req)
    with p show ?thesis
      by (cases "handleEncryptedMessage st (l_topic l) req"; cases "snd (handleEncryptedMessage st (l_topic l) req)")
         (simp_all add: on_encryptedMessage_def decrypt_and_handle_def calls_append)
  qed
qed

lemma on_handshake_state:
  "fst (on_handshake ext l st data)
     = (case read_pubkey data of
          Inl e \<Rightarrow> st
        | Inr pubkey \<Rightarrow>
            (case getSharedSecret ext (bytesToHex (privateKey (l_keyPair l))) pubkey of
               Inl e \<Rightarrow> st
             | Inr secret \<Rightarrow>
                 st\<lparr>topicToSharedSecret := (topicToSharedSecret st)(l_topic l \<mapsto> secret)\<rparr>))"
  by (simp add: on_handshake_def Let_def split: sum.splits prod.splits)

lemma on_handshake_calls:
  "calls (fst (snd (on_handshake ext l st data)))
     = (case read_pubkey data of
          Inl e \<Rightarrow> []
        | Inr pubkey \<Rightarrow>
            (case getSharedSecret ext (bytesToHex (privateKey (l_keyPair l))) pubkey of
               Inl e \<Rightarrow> []
             | Inr secret \<Rightarrow>
                 (case createEncryptedJsonRpcRequest ext ''hello'' JNull secret (l_topic l) of
                    Inl e \<Rightarrow> []
                  | Inr m \<Rightarrow> calls (fst (forEach (qrCodeScannedCallbacks st) [])))))"
  by (simp add: on_handshake_def Let_def calls_append case_prod_beta split: sum.splits)

lemma on_message_other:
  assumes "JSON_parse ext event_data = Inr data"
    and "\<not> has_method data ''handshake''" and "\<not> has_method data ''encryptedMessage''"
  shows "fst (on_message ext l st event_data) = st
       \<and> calls (snd (on_message ext l st event_data)) = []"
  using assms
  by (cases "get_prop (Some data) ''method''")
     (simp_all add: on_message_def Let_def has_method_def catch_log_def)

lemma on_message_unparsed:
  assumes "JSON_parse ext event_data = Inl e"
  shows "fst (on_message ext l st event_data) = st
       \<and> calls (snd (on_message ext l st event_data)) = []"
  using assms by (simp add: on_message_def Let_def catch_log_def)

lemma on_message_fst:
  "fst (on_message ext l st event_data)
     = (case JSON_parse ext event_data of
          Inl e \<Rightarrow> st
        | Inr data \<Rightarrow> if has_method data ''handshake'' then fst (on_handshake ext l st data) else st)"
proof (cases "JSON_parse ext event_data")
  case (Inl e)
  then show ?thesis by (simp add: on_message_unparsed)
next
  case (Inr data)
  show ?thesis
  proof (cases "has_method data ''handshake''")
    case True
    with Inr show ?thesis by (simp add: on_message_handshake)
  next
    case nh: False
    show ?thesis
    proof (cases "has_method data ''encryptedMessage''")
      case True
      with Inr nh show ?thesis by (simp add: on_message_encrypted)
    next
      case False
      with Inr nh show ?thesis by (simp add: on_message_other)
    qed
  qed
qed

lemma on_message_calls:
  "calls (snd (on_message ext l st event_data))
     = (case JSON_parse ext event_data of
          Inl e \<Rightarrow> []
        | Inr data \<Rightarrow>
            if has_method data ''handshake'' then calls (fst (snd (on_handshake ext l st data)))
            else if has_method data ''encryptedMessage''
              then calls (fst (on_encryptedMessage ext l st data))
            else [])"
proof (cases "JSON_parse ext event_data")
  case (Inl e)
  then show ?thesis by (simp add: on_message_unparsed)
next
  case (Inr data)
  show ?thesis
  proof (cases "has_method data ''handshake''")
    case True
    with Inr show ?thesis by (simp add: on_message_handshake calls_append catch_log_calls)
  next
    case nh: False
    show ?thesis
    proof (cases "has_method data ''encryptedMessage''")
      case True
      with Inr nh show ?thesis by (simp add: on_message_encrypted calls_append catch_log_calls)
    next
      case False
      with Inr nh show ?thesis by (simp add: on_message_other)
    qed
  qed
qed


lemma on_message_calls_mem:
  assumes "x \<in> set (calls (snd (on_message ext l st event_data)))"
  shows "fst x \<in> set (qrCodeScannedCallbacks st) \<union> set (onGeneratingProofCallbacks st)
           \<union> set (onRejectCallbacks st) \<union> set (onProofGeneratedCallbacks st)
           \<union> set (onErrorCallbacks st)"
proof -
  from assms obtain data where d: "JSON_parse ext event_data = Inr data"
    by (cases "JSON_parse ext event_data") (simp_all add: on_message_calls)
  show ?thesis
  proof (cases "has_method data ''handshake''")
    case True
    with assms d have "x \<in> set (calls (fst (snd (on_handshake ext l st data))))"
      by (simp add: on_message_calls)
    then have "fst x \<in> set (qrCodeScannedCallbacks st)"
      by (auto simp: on_handshake_calls dest: forEach_calls_mem split: sum.splits)
    then show ?thesis by simp
  next
    case False
    with assms d have "x \<in> set (calls (fst (on_encryptedMessage ext l st data)))"
      by (simp add: on_message_calls split: if_splits)
    then obtain req where "x \<in> set (calls (fst (handleEncryptedMessage st (l_topic l) req)))"
      by (auto simp: on_encryptedMessage_calls split: sum.splits)
    from handleEncryptedMessage_calls_mem [OF this] show ?thesis by blast
  qed
qed

lemma dispatched_calls:
  assumes "dispatched_request ext l st event_data = Some req"
  shows "calls (snd (on_message ext l st event_data))
           = calls (fst (handleEncryptedMessage st (l_topic l) req))"
proof -
  from assms obtain data where d: "JSON_parse ext event_data = Inr data"
    by (cases "JSON_parse ext event_data") (simp_all add: dispatched_request_def)
  with assms have e: "has_method data ''encryptedMessage''"
    by (simp add: dispatched_request_def split: if_splits)
  then have nh: "\<not> has_method data ''handshake''"
    by (simp add: has_method_def)
  from assms d e obtain payload where p: "decode_payload data = Inr payload"
    by (cases "decode_payload data") (simp_all add: dispatched_request_def)
  with assms d e have "decrypt_and_parse ext l st payload = Inr req"
    by (cases "decrypt_and_parse ext l st payload") (simp_all add: dispatched_request_def)
  with d e nh p show ?thesis
    by (simp add: on_message_calls on_encryptedMessage_calls)
qed

lemma completed_handshake_calls:
  assumes "completes_handshake ext l event_data"
  shows "calls (snd (on_message ext l st event_data))
           = calls (fst (forEach (qrCodeScannedCallbacks st) []))"
proof -
  from assms obtain data where d: "JSON_parse ext event_data = Inr data"
    by (cases "JSON_parse ext event_data") (simp_all add: completes_handshake_def)
  with assms have h: "has_method data ''handshake''"
    by (simp add: completes_handshake_def)
  from assms d obtain pubkey where p: "read_pubkey data = Inr pubkey"
    by (cases "read_pubkey data") (simp_all add: completes_handshake_def)
  from assms d p obtain secret where
    s: "getSharedSecret ext (bytesToHex (privateKey (l_keyPair l))) pubkey = Inr secret"
    by (cases "getSharedSecret ext (bytesToHex (privateKey (l_keyPair l))) pubkey")
       (simp_all add: completes_handshake_def)
  from assms d p s obtain m where
    "createEncryptedJsonRpcRequest ext ''hello'' JNull secret (l_topic l) = Inr m"
    by (cases "createEncryptedJsonRpcRequest ext ''hello'' JNull secret (l_topic l)")
       (simp_all add: completes_handshake_def)
  with d h p s show ?thesis
    by (simp add: on_message_calls on_handshake_calls)
qed

lemma dispatched_state:
  assumes "dispatched_request ext l st event_data = Some req"
  shows "fst (on_message ext l st event_data) = st"
proof -
  from assms obtain data where d: "JSON_parse ext event_data = Inr data"
    by (cases "JSON_parse ext event_data") (simp_all add: dispatched_request_def)
  with assms have "has_method data ''encryptedMessage''"
    by (simp add: dispatched_request_def split: if_splits)
  then have "\<not> has_method data ''handshake''"
    by (simp add: has_method_def)
  with d show ?thesis
    by (simp add: on_message_fst)
qed

lemma dispatched_accept_calls:
  assumes "dispatched_request ext l st event_data = Some req" and "has_method req ''accept''"
  shows "calls (snd (on_message ext l st event_data))
           = map (\<lambda>c. (c, [Some (JStr (l_topic l))])) (reached (onGeneratingProofCallbacks st))"
  using assms(2)
  by (simp add: dispatched_calls [OF assms(1)] handleEncryptedMessage_calls has_method_def
      calls_forEach)

lemma dispatched_reject_calls:
  assumes "dispatched_request ext l st event_data = Some req" and "has_method req ''reject''"
  shows "calls (snd (on_message ext l st event_data))
           = map (\<lambda>c. (c, [])) (reached (onRejectCallbacks st))"
  using assms(2)
  by (simp add: dispatched_calls [OF assms(1)] handleEncryptedMessage_calls has_method_def
      calls_forEach)

lemma forEach_param_read_calls:
  assumes "get_prop (Some req) ''params'' = Inr p" and "get_prop p x = Inr v"
  shows "calls (fst (forEach_param cbs req x)) = map (\<lambda>c. (c, [v])) (reached cbs)"
  using assms by (auto simp: forEach_param_calls calls_forEach)

lemma dispatched_done_calls:
  assumes "dispatched_request ext l st event_data = Some req" and "has_method req ''done''"
    and "get_prop (Some req) ''params'' = Inr p" and "get_prop p ''proof'' = Inr v"
  shows "calls (snd (on_message ext l st event_data))
           = map (\<lambda>c. (c, [v])) (reached (onProofGeneratedCallbacks st))"
  using assms(2)
  by (simp add: dispatched_calls [OF assms(1)] handleEncryptedMessage_calls has_method_def
      forEach_param_read_calls [OF assms(3,4)])

lemma dispatched_error_calls:
  assumes "dispatched_request ext l st event_data = Some req" and "has_method req ''error''"
    and "get_prop (Some req) ''params'' = Inr p" and "get_prop p ''error'' = Inr v"
  shows "calls (snd (on_message ext l st event_data))
           = map (\<lambda>c. (c, [v])) (reached (onErrorCallbacks st))"
  using assms(2)
  by (simp add: dispatched_calls [OF assms(1)] handleEncryptedMessage_calls has_method_def
      forEach_param_read_calls [OF assms(3,4)])

lemma handshake_run:
  assumes "JSON_parse ext event_data = Inr data" and "has_method data ''handshake''"
    and "read_pubkey data = Inr pubkey"
    and "getSharedSecret ext (bytesToHex (privateKey (l_keyPair l))) pubkey = Inr secret"
    and "createEncryptedJsonRpcRequest ext ''hello'' JNull secret (l_topic l) = Inr m"
  shows "fst (on_message ext l st event_data)
           = st\<lparr>topicToSharedSecret := (topicToSharedSecret st)(l_topic l \<mapsto> secret)\<rparr>"
    and "calls (snd (on_message ext l st event_data))
           = map (\<lambda>c. (c, [])) (reached (qrCodeScannedCallbacks st))"
    and "Send (l_wsClient l) (JSON_stringify m) \<in> set (snd (on_message ext l st event_data))"
proof -
  show "fst (on_message ext l st event_data)
           = st\<lparr>topicToSharedSecret := (topicToSharedSecret st)(l_topic l \<mapsto> secret)\<rparr>"
    using assms by (simp add: on_message_fst on_handshake_state)
  show "calls (snd (on_message ext l st event_data))
           = map (\<lambda>c. (c, [])) (reached (qrCodeScannedCallbacks st))"
    using assms by (simp add: on_message_calls on_handshake_calls calls_forEach)
  have "Send (l_wsClient l) (JSON_stringify m) \<in> set (fst (snd (on_handshake ext l st data)))"
    using assms(3-5) by (simp add: on_handshake_def Let_def case_prod_beta)
  then show "Send (l_wsClient l) (JSON_stringify m) \<in> set (snd (on_message ext l st event_data))"
    by (simp add: on_message_handshake [OF assms(1,2)])
qed

lemma reached_member:
  assumes "\<forall>c \<in> set pre. \<not> cb_throws c"
  shows "cb \<in> set (reached (pre @ cb # post))"
  using assms by (simp add: reached_no_throw)

lemma registered_is_called:
  assumes "cbs = pre @ cb # post" and "\<forall>c \<in> set pre. \<not> cb_throws c"
  shows "(cb, args) \<in> set (map (\<lambda>c. (c, args)) (reached cbs))"
  using reached_member [OF assms(2), of cb post] assms(1) by auto








section \<open>The test double on the scenario messages\<close>

lemmas message_defs =
  handshake_03cc_def handshake_03dd_def accept_request_def reject_request_def done_request_def
  error_request_def corrupted_message_def sealed_def encrypted_message_def rpc_message_def
  demo_seal_def secret_03cc_def

lemmas text_defs = json_quote_def json_escape_char_def b64_char_def base64_alphabet_def

lemma unat_of_char: "unat (of_char c :: byte) = of_char c"
proof -
  have "(of_char c :: byte) = of_nat (of_char c)"
    by (simp add: of_nat_of_char)
  then have "unat (of_char c :: byte) = of_char c mod 256"
    by (simp add: unat_of_nat)
  then show ?thesis by simp
qed

lemma parse_handshake_03cc: "JSON_parse demo (JSON_stringify handshake_03cc) = Inr handshake_03cc"
  by (simp add: demo_def demo_externals_def demo_JSON_parse_def message_defs text_defs)

lemma parse_sealed_accept:
  "JSON_parse demo (JSON_stringify (sealed accept_request)) = Inr (sealed accept_request)"
  by (simp add: demo_def demo_externals_def demo_JSON_parse_def message_defs text_defs)

lemma parse_handshake_03dd:
  "JSON_parse demo (JSON_stringify handshake_03dd) = Inr handshake_03dd"
  by (simp add: demo_def demo_externals_def demo_JSON_parse_def message_defs text_defs)

lemma parse_sealed_reject:
  "JSON_parse demo (JSON_stringify (sealed reject_request)) = Inr (sealed reject_request)"
  by (simp add: demo_def demo_externals_def demo_JSON_parse_def message_defs text_defs)

lemma parse_sealed_done:
  "JSON_parse demo (JSON_stringify (sealed done_request)) = Inr (sealed done_request)"
  by (simp add: demo_def demo_externals_def demo_JSON_parse_def message_defs text_defs)

lemma parse_sealed_error:
  "JSON_parse demo (JSON_stringify (sealed error_request)) = Inr (sealed error_request)"
  by (simp add: demo_def demo_externals_def demo_JSON_parse_def message_defs text_defs)

lemma parse_accept:
  "JSON_parse demo (JSON_stringify accept_request) = Inr accept_request"
  by (simp add: demo_def demo_externals_def demo_JSON_parse_def message_defs text_defs)

lemma parse_reject:
  "JSON_parse demo (JSON_stringify reject_request) = Inr reject_request"
  by (simp add: demo_def demo_externals_def demo_JSON_parse_def message_defs text_defs)

lemma parse_done:
  "JSON_parse demo (JSON_stringify done_request) = Inr done_request"
  by (simp add: demo_def demo_externals_def demo_JSON_parse_def message_defs text_defs)

lemma parse_error:
  "JSON_parse demo (JSON_stringify error_request) = Inr error_request"
  by (simp add: demo_def demo_externals_def demo_JSON_parse_def message_defs text_defs)

lemma parse_corrupted:
  "JSON_parse demo (JSON_stringify corrupted_message) = Inr corrupted_message"
  by (simp add: demo_def demo_externals_def demo_JSON_parse_def message_defs text_defs)

lemma demo_decrypt_seal:
  "demo_decrypt (demo_seal secret topic plaintext) (Some secret) topic = Inr plaintext"
  by (simp add: demo_decrypt_def demo_seal_def unat_of_char comp_def)

lemma byte_of_char_of: "(of_char (char_of (n::nat)) :: byte) = of_nat n"
proof -
  have "(of_char (char_of n) :: byte) = of_nat (of_char (char_of n) :: nat)"
    by (rule of_nat_of_char [symmetric])
  also have "(of_char (char_of n) :: nat) = n mod 256"
    by simp
  also have "(of_nat (n mod 256) :: byte) = of_nat n"
    by (simp add: word_of_nat_eq_iff take_bit_eq_mod)
  finally show ?thesis .
qed

lemmas atob_defs = atob_def strip_padding_def is_ascii_whitespace_def

lemma decode_sealed_accept:
  "decode_payload (sealed accept_request)
     = Inr (demo_seal secret_03cc ''def789'' (JSON_stringify accept_request))"
  by (simp add: decode_payload_def template_def message_defs text_defs atob_defs unat_of_char byte_of_char_of)

lemma decode_sealed_reject:
  "decode_payload (sealed reject_request)
     = Inr (demo_seal secret_03cc ''def789'' (JSON_stringify reject_request))"
  by (simp add: decode_payload_def template_def message_defs text_defs atob_defs unat_of_char byte_of_char_of)

lemma decode_sealed_done:
  "decode_payload (sealed done_request)
     = Inr (demo_seal secret_03cc ''def789'' (JSON_stringify done_request))"
  by (simp add: decode_payload_def template_def message_defs text_defs atob_defs unat_of_char byte_of_char_of)

lemma decode_sealed_error:
  "decode_payload (sealed error_request)
     = Inr (demo_seal secret_03cc ''def789'' (JSON_stringify error_request))"
  by (simp add: decode_payload_def template_def message_defs text_defs atob_defs unat_of_char byte_of_char_of)

lemma corrupted_facts:
  "has_method corrupted_message ''encryptedMessage''"
  "decode_payload corrupted_message = Inl InvalidCharacterError"
  by (simp_all add: has_method_def corrupted_message_def rpc_message_def decode_payload_def
      template_def atob_defs base64_alphabet_def)

lemmas scenario_defs =
  subscribed_def established_def two_sessions_def main_instance_def new_ZkPassport_def
  onError_def onReject_def onProofGenerated_def onGeneratingProof_def onQRCodeScanned_def
  listener_def789_def short_keyPair_def

lemma demo_fields:
  "JSON_parse demo = demo_JSON_parse
     [handshake_03cc, handshake_03dd, accept_request, reject_request, done_request,
      error_request, sealed accept_request, sealed reject_request, sealed done_request,
      sealed error_request, corrupted_message]"
  "getSharedSecret demo = demo_getSharedSecret"
  "createEncryptedJsonRpcRequest demo = demo_createEncryptedJsonRpcRequest"
  "decrypt demo = demo_decrypt"
  by (simp_all add: demo_def demo_externals_def)

lemma handshake_messages:
  "has_method handshake_03cc ''handshake''"
  "has_method handshake_03dd ''handshake''"
  "read_pubkey handshake_03cc = Inr (Some (JStr ''03cc''))"
  "read_pubkey handshake_03dd = Inr (Some (JStr ''03dd''))"
  by (simp_all add: has_method_def read_pubkey_def handshake_03cc_def handshake_03dd_def
      rpc_message_def)

lemma derive_def789:
  "getSharedSecret demo (bytesToHex (privateKey (l_keyPair listener_def789))) (Some (JStr ''03cc''))
     = Inr secret_03cc"
  "getSharedSecret demo (bytesToHex (privateKey (l_keyPair listener_def789))) (Some (JStr ''03dd''))
     = Inr secret_03dd"
  by (simp_all add: demo_fields demo_getSharedSecret_def listener_def789_def short_keyPair_def
      bytesToHex_def hex_digit_def secret_03cc_def secret_03dd_def)

lemma completes_03cc: "completes_handshake demo listener_def789 (JSON_stringify handshake_03cc)"
  by (simp add: completes_handshake_def parse_handshake_03cc handshake_messages derive_def789)
     (simp add: demo_fields demo_createEncryptedJsonRpcRequest_def)

lemma sealed_messages:
  "has_method (sealed inner) ''encryptedMessage''"
  by (simp add: has_method_def sealed_def encrypted_message_def rpc_message_def)

lemma dispatched_sealed:
  assumes "JSON_parse demo (JSON_stringify (sealed inner)) = Inr (sealed inner)"
    and "decode_payload (sealed inner) = Inr (demo_seal secret_03cc ''def789'' (JSON_stringify inner))"
    and "JSON_parse demo (JSON_stringify inner) = Inr inner"
    and "topicToSharedSecret st ''def789'' = Some secret_03cc"
  shows "dispatched_request demo listener_def789 st (JSON_stringify (sealed inner)) = Some inner"
proof -
  have "l_topic listener_def789 = ''def789''"
    by (simp add: listener_def789_def)
  with assms(3,4) have
    "decrypt_and_parse demo listener_def789 st (demo_seal secret_03cc ''def789'' (JSON_stringify inner))
       = Inr inner"
    by (simp add: decrypt_and_parse_def demo_fields(4) demo_decrypt_seal)
  with assms(1,2) show ?thesis
    by (simp add: dispatched_request_def sealed_messages)
qed

lemma established_fields:
  "topicToSharedSecret established ''def789'' = Some secret_03cc"
  "qrCodeScannedCallbacks established = [Callback 1 False]"
  "onGeneratingProofCallbacks established = [Callback 2 False]"
  "onProofGeneratedCallbacks established = [Callback 3 False]"
  "onRejectCallbacks established = [Callback 4 False]"
  "onErrorCallbacks established = [Callback 5 False]"
  by (simp_all add: scenario_defs)

lemma subscribed_fields:
  "topicToSharedSecret subscribed = Map.empty"
  "topicToWebSocketClient subscribed ''def789'' = Some 2"
  "qrCodeScannedCallbacks subscribed = [Callback 1 False]"
  "onGeneratingProofCallbacks subscribed = [Callback 2 False]"
  "onProofGeneratedCallbacks subscribed = [Callback 3 False]"
  "onRejectCallbacks subscribed = [Callback 4 False]"
  "onErrorCallbacks subscribed = [Callback 5 False]"
  by (simp_all add: scenario_defs)

lemma inner_requests:
  "has_method accept_request ''accept''"
  "has_method reject_request ''reject''"
  "has_method done_request ''done''"
  "has_method error_request ''error''"
  "get_prop (Some done_request) ''params'' = Inr (Some (JObj [(''proof'', JStr ''deadbeef'')]))"
  "get_prop (Some (JObj [(''proof'', JStr ''deadbeef'')])) ''proof'' = Inr (Some (JStr ''deadbeef''))"
  "get_prop (Some error_request) ''params'' = Inr (Some (JObj [(''error'', JStr ''timeout'')]))"
  "get_prop (Some (JObj [(''error'', JStr ''timeout'')])) ''error'' = Inr (Some (JStr ''timeout''))"
  by (simp_all add: has_method_def accept_request_def reject_request_def done_request_def
      error_request_def rpc_message_def)

lemma handshake_state_03cc:
  assumes "l_topic l = ''def789''" and "l_keyPair l = short_keyPair"
  shows "fst (on_message demo l st (JSON_stringify handshake_03cc))
           = st\<lparr>topicToSharedSecret := (topicToSharedSecret st)(''def789'' \<mapsto> secret_03cc)\<rparr>"
  using assms derive_def789(1)
  by (simp add: on_message_fst parse_handshake_03cc handshake_messages on_handshake_state
      listener_def789_def)

lemma handshake_state_03dd:
  assumes "l_topic l = ''def789''" and "l_keyPair l = short_keyPair"
  shows "fst (on_message demo l st (JSON_stringify handshake_03dd))
           = st\<lparr>topicToSharedSecret := (topicToSharedSecret st)(''def789'' \<mapsto> secret_03dd)\<rparr>"
  using assms derive_def789(2)
  by (simp add: on_message_fst parse_handshake_03dd handshake_messages on_handshake_state
      listener_def789_def)

lemma listener_def789_fields:
  "l_topic listener_def789 = ''def789''" "l_keyPair listener_def789 = short_keyPair"
  by (simp_all add: listener_def789_def)

lemma handshake_establishes:
  "fst (on_message demo listener_def789 subscribed (JSON_stringify handshake_03cc)) = established"
  by (simp add: handshake_state_03cc [OF listener_def789_fields] established_def
      subscribed_fields(1))

lemma twice_subscribed_fields:
  "topicToSharedSecret twice_subscribed ''def789'' = Some secret_03cc"
  "topicToWebSocketClient twice_subscribed ''abc456'' = Some 1"
  "qrCodeScannedCallbacks twice_subscribed = [Callback 1 False, Callback 6 True]"
  "onGeneratingProofCallbacks twice_subscribed = [Callback 2 False, Callback 7 False]"
  "onProofGeneratedCallbacks twice_subscribed = [Callback 3 False, Callback 8 False]"
  "onRejectCallbacks twice_subscribed = [Callback 4 False, Callback 9 False]"
  "onErrorCallbacks twice_subscribed = [Callback 5 False, Callback 10 False]"
  by (simp_all add: twice_subscribed_def scenario_defs)

section \<open>Callbacks and topics\<close>

text \<open>
  Claim C1, as stated: callbacks registered through the descriptor of a session A fire only
  for messages addressed to the topic of A, never for a message that arrives for the topic
  of another session B. It fails on the code: a callback registered with
  \<^verbatim>\<open>onQRCodeScanned\<close> of the descriptor of \<^verbatim>\<open>abc456\<close> is called when the listener of the topic
  \<^verbatim>\<open>def789\<close> receives a handshake.
\<close>

theorem callback_of_abc456_fires_for_def789:
  "requestId descriptor_abc456 = ''abc456''
   \<and> l_topic listener_def789 = ''def789''
   \<and> calls (snd (on_message demo listener_def789
               (onQRCodeScanned descriptor_abc456 (Callback 1 False) two_sessions)
               (JSON_stringify handshake_03cc)))
       = [(Callback 1 False, [])]"
proof -
  have "qrCodeScannedCallbacks (onQRCodeScanned descriptor_abc456 (Callback 1 False) two_sessions)
          = [Callback 1 False]"
    by (simp add: onQRCodeScanned_def two_sessions_def main_instance_def new_ZkPassport_def)
  then have "calls (snd (on_message demo listener_def789
               (onQRCodeScanned descriptor_abc456 (Callback 1 False) two_sessions)
               (JSON_stringify handshake_03cc)))
       = [(Callback 1 False, [])]"
    by (simp add: completed_handshake_calls [OF completes_03cc])
  then show ?thesis
    by (simp add: descriptor_abc456_def listener_def789_fields)
qed

text \<open>
  Claim C1, amended. The callback registries belong to the instance, not to a session. A
  subscription function of the descriptor of a session A (\<^verbatim>\<open>onQRCodeScanned\<close>,
  \<^verbatim>\<open>onGeneratingProof\<close>, \<^verbatim>\<open>onReject\<close>, \<^verbatim>\<open>onProofGenerated\<close>, \<^verbatim>\<open>onError\<close>) appends the
  callback to the registry of its kind, whatever the topic of A. In every state of the
  instance in which the registry holds the callback, with no throwing callback before it,
  the callback is called when the listener of any session B processes the triggering
  message (a completed handshake, or an encrypted message that dispatches \<^verbatim>\<open>accept\<close>,
  \<^verbatim>\<open>reject\<close>, \<^verbatim>\<open>done\<close>, \<^verbatim>\<open>error\<close>), with the topic of B, the proof or the error as
  argument. A callback is called only while a registry holds it, and a successful
  \<^verbatim>\<open>cancelRequest\<close>, of any topic, empties the registries of \<^verbatim>\<open>onQRCodeScanned\<close>,
  \<^verbatim>\<open>onGeneratingProof\<close>, \<^verbatim>\<open>onProofGenerated\<close> and \<^verbatim>\<open>onError\<close>, which removes every callback
  registered there.
\<close>

theorem callbacks_fire_for_any_topic:
  assumes "requestId dA \<noteq> l_topic lB"
  shows "qrCodeScannedCallbacks (onQRCodeScanned dA cb st0) = qrCodeScannedCallbacks st0 @ [cb]
       \<and> onGeneratingProofCallbacks (onGeneratingProof dA cb st0)
           = onGeneratingProofCallbacks st0 @ [cb]
       \<and> onRejectCallbacks (onReject dA cb st0) = onRejectCallbacks st0 @ [cb]
       \<and> onProofGeneratedCallbacks (onProofGenerated dA cb st0)
           = onProofGeneratedCallbacks st0 @ [cb]
       \<and> onErrorCallbacks (onError dA cb st0) = onErrorCallbacks st0 @ [cb]
       \<and> (\<forall>pre post. completes_handshake ext lB event_data
            \<and> qrCodeScannedCallbacks st = pre @ cb # post \<and> (\<forall>c \<in> set pre. \<not> cb_throws c)
          \<longrightarrow> (cb, []) \<in> set (calls (snd (on_message ext lB st event_data))))
       \<and> (\<forall>pre post req. dispatched_request ext lB st event_data = Some req
            \<and> has_method req ''accept''
            \<and> onGeneratingProofCallbacks st = pre @ cb # post \<and> (\<forall>c \<in> set pre. \<not> cb_throws c)
          \<longrightarrow> (cb, [Some (JStr (l_topic lB))]) \<in> set (calls (snd (on_message ext lB st event_data))))
       \<and> (\<forall>pre post req. dispatched_request ext lB st event_data = Some req
            \<and> has_method req ''reject''
            \<and> onRejectCallbacks st = pre @ cb # post \<and> (\<forall>c \<in> set pre. \<not> cb_throws c)
          \<longrightarrow> (cb, []) \<in> set (calls (snd (on_message ext lB st event_data))))
       \<and> (\<forall>pre post req p v. dispatched_request ext lB st event_data = Some req
            \<and> has_method req ''done''
            \<and> get_prop (Some req) ''params'' = Inr p \<and> get_prop p ''proof'' = Inr v
            \<and> onProofGeneratedCallbacks st = pre @ cb # post \<and> (\<forall>c \<in> set pre. \<not> cb_throws c)
          \<longrightarrow> (cb, [v]) \<in> set (calls (snd (on_message ext lB st event_data))))
       \<and> (\<forall>pre post req p v. dispatched_request ext lB st event_data = Some req
            \<and> has_method req ''error''
            \<and> get_prop (Some req) ''params'' = Inr p \<and> get_prop p ''error'' = Inr v
            \<and> onErrorCallbacks st = pre @ cb # post \<and> (\<forall>c \<in> set pre. \<not> cb_throws c)
          \<longrightarrow> (cb, [v]) \<in> set (calls (snd (on_message ext lB st event_data))))
       \<and> (\<forall>u st' es. cancelRequest st u = Inr (st', es)
          \<longrightarrow> qrCodeScannedCallbacks st' = [] \<and> onGeneratingProofCallbacks st' = []
              \<and> onProofGeneratedCallbacks st' = [] \<and> onErrorCallbacks st' = [])
       \<and> (\<forall>x \<in> set (calls (snd (on_message ext lB st event_data))).
             fst x \<in> set (qrCodeScannedCallbacks st) \<union> set (onGeneratingProofCallbacks st)
                     \<union> set (onRejectCallbacks st) \<union> set (onProofGeneratedCallbacks st)
                     \<union> set (onErrorCallbacks st))"
proof -
  have reg: "qrCodeScannedCallbacks (onQRCodeScanned dA cb st0) = qrCodeScannedCallbacks st0 @ [cb]"
    "onGeneratingProofCallbacks (onGeneratingProof dA cb st0) = onGeneratingProofCallbacks st0 @ [cb]"
    "onRejectCallbacks (onReject dA cb st0) = onRejectCallbacks st0 @ [cb]"
    "onProofGeneratedCallbacks (onProofGenerated dA cb st0) = onProofGeneratedCallbacks st0 @ [cb]"
    "onErrorCallbacks (onError dA cb st0) = onErrorCallbacks st0 @ [cb]"
    by (simp_all add: onQRCodeScanned_def onGeneratingProof_def onReject_def onProofGenerated_def
        onError_def)
  have hs: "\<forall>pre post. completes_handshake ext lB event_data
            \<and> qrCodeScannedCallbacks st = pre @ cb # post \<and> (\<forall>c \<in> set pre. \<not> cb_throws c)
          \<longrightarrow> (cb, []) \<in> set (calls (snd (on_message ext lB st event_data)))"
  proof (intro allI impI)
    fix pre post
    assume a: "completes_handshake ext lB event_data
            \<and> qrCodeScannedCallbacks st = pre @ cb # post \<and> (\<forall>c \<in> set pre. \<not> cb_throws c)"
    then have "calls (snd (on_message ext lB st event_data))
        = map (\<lambda>c. (c, [])) (reached (qrCodeScannedCallbacks st))"
      by (simp add: completed_handshake_calls calls_forEach)
    with a registered_is_called [of "qrCodeScannedCallbacks st" pre cb post "[]"]
    show "(cb, []) \<in> set (calls (snd (on_message ext lB st event_data)))"
      by simp
  qed
  have ac: "\<forall>pre post req. dispatched_request ext lB st event_data = Some req
            \<and> has_method req ''accept''
            \<and> onGeneratingProofCallbacks st = pre @ cb # post \<and> (\<forall>c \<in> set pre. \<not> cb_throws c)
          \<longrightarrow> (cb, [Some (JStr (l_topic lB))]) \<in> set (calls (snd (on_message ext lB st event_data)))"
  proof (intro allI impI)
    fix pre post req
    assume a: "dispatched_request ext lB st event_data = Some req
            \<and> has_method req ''accept''
            \<and> onGeneratingProofCallbacks st = pre @ cb # post \<and> (\<forall>c \<in> set pre. \<not> cb_throws c)"
    then have "calls (snd (on_message ext lB st event_data))
        = map (\<lambda>c. (c, [Some (JStr (l_topic lB))])) (reached (onGeneratingProofCallbacks st))"
      by (simp add: dispatched_accept_calls)
    with a registered_is_called [of "onGeneratingProofCallbacks st" pre cb post
        "[Some (JStr (l_topic lB))]"]
    show "(cb, [Some (JStr (l_topic lB))]) \<in> set (calls (snd (on_message ext lB st event_data)))"
      by simp
  qed
  have rj: "\<forall>pre post req. dispatched_request ext lB st event_data = Some req
            \<and> has_method req ''reject''
            \<and> onRejectCallbacks st = pre @ cb # post \<and> (\<forall>c \<in> set pre. \<not> cb_throws c)
          \<longrightarrow> (cb, []) \<in> set (calls (snd (on_message ext lB st event_data)))"
  proof (intro allI impI)
    fix pre post req
    assume a: "dispatched_request ext lB st event_data = Some req
            \<and> has_method req ''reject''
            \<and> onRejectCallbacks st = pre @ cb # post \<and> (\<forall>c \<in> set pre. \<not> cb_throws c)"
    then have "calls (snd (on_message ext lB st event_data))
        = map (\<lambda>c. (c, [])) (reached (onRejectCallbacks st))"
      by (simp add: dispatched_reject_calls)
    with a registered_is_called [of "onRejectCallbacks st" pre cb post "[]"]
    show "(cb, []) \<in> set (calls (snd (on_message ext lB st event_data)))"
      by simp
  qed
  have dn: "\<forall>pre post req p v. dispatched_request ext lB st event_data = Some req
            \<and> has_method req ''done''
            \<and> get_prop (Some req) ''params'' = Inr p \<and> get_prop p ''proof'' = Inr v
            \<and> onProofGeneratedCallbacks st = pre @ cb # post \<and> (\<forall>c \<in> set pre. \<not> cb_throws c)
          \<longrightarrow> (cb, [v]) \<in> set (calls (snd (on_message ext lB st event_data)))"
  proof (intro allI impI)
    fix pre post req p v
    assume a: "dispatched_request ext lB st event_data = Some req
            \<and> has_method req ''done''
            \<and> get_prop (Some req) ''params'' = Inr p \<and> get_prop p ''proof'' = Inr v
            \<and> onProofGeneratedCallbacks st = pre @ cb # post \<and> (\<forall>c \<in> set pre. \<not> cb_throws c)"
    then have "calls (snd (on_message ext lB st event_data))
        = map (\<lambda>c. (c, [v])) (reached (onProofGeneratedCallbacks st))"
      using dispatched_done_calls [of ext lB st event_data req p v] by simp
    with a registered_is_called [of "onProofGeneratedCallbacks st" pre cb post "[v]"]
    show "(cb, [v]) \<in> set (calls (snd (on_message ext lB st event_data)))"
      by simp
  qed
  have er: "\<forall>pre post req p v. dispatched_request ext lB st event_data = Some req
            \<and> has_method req ''error''
            \<and> get_prop (Some req) ''params'' = Inr p \<and> get_prop p ''error'' = Inr v
            \<and> onErrorCallbacks st = pre @ cb # post \<and> (\<forall>c \<in> set pre. \<not> cb_throws c)
          \<longrightarrow> (cb, [v]) \<in> set (calls (snd (on_message ext lB st event_data)))"
  proof (intro allI impI)
    fix pre post req p v
    assume a: "dispatched_request ext lB st event_data = Some req
            \<and> has_method req ''error''
            \<and> get_prop (Some req) ''params'' = Inr p \<and> get_prop p ''error'' = Inr v
            \<and> onErrorCallbacks st = pre @ cb # post \<and> (\<forall>c \<in> set pre. \<not> cb_throws c)"
    then have "calls (snd (on_message ext lB st event_data))
        = map (\<lambda>c. (c, [v])) (reached (onErrorCallbacks st))"
      using dispatched_error_calls [of ext lB st event_data req p v] by simp
    with a registered_is_called [of "onErrorCallbacks st" pre cb post "[v]"]
    show "(cb, [v]) \<in> set (calls (snd (on_message ext lB st event_data)))"
      by simp
  qed
  have cn: "\<forall>u st' es. cancelRequest st u = Inr (st', es)
          \<longrightarrow> qrCodeScannedCallbacks st' = [] \<and> onGeneratingProofCallbacks st' = []
              \<and> onProofGeneratedCallbacks st' = [] \<and> onErrorCallbacks st' = []"
    by (auto simp: cancelRequest_def split: option.splits)
  have bd: "\<forall>x \<in> set (calls (snd (on_message ext lB st event_data))).
             fst x \<in> set (qrCodeScannedCallbacks st) \<union> set (onGeneratingProofCallbacks st)
                     \<union> set (onRejectCallbacks st) \<union> set (onProofGeneratedCallbacks st)
                     \<union> set (onErrorCallbacks st)"
    using on_message_calls_mem [of _ ext lB st event_data] by blast
  from reg hs ac rj dn er cn bd show ?thesis
    by (intro conjI)
qed

theorem callbacks_fire_for_any_topic_witness:
  "requestId descriptor_abc456 \<noteq> l_topic listener_def789
   \<and> qrCodeScannedCallbacks (onQRCodeScanned descriptor_abc456 (Callback 6 True) established)
       = [Callback 1 False, Callback 6 True]
   \<and> completes_handshake demo listener_def789 (JSON_stringify handshake_03cc)
   \<and> qrCodeScannedCallbacks twice_subscribed = [] @ Callback 1 False # [Callback 6 True]
   \<and> (Callback 1 False, [])
       \<in> set (calls (snd (on_message demo listener_def789 twice_subscribed
                  (JSON_stringify handshake_03cc))))
   \<and> dispatched_request demo listener_def789 twice_subscribed
         (JSON_stringify (sealed accept_request)) = Some accept_request
   \<and> onGeneratingProofCallbacks twice_subscribed = [Callback 2 False] @ Callback 7 False # []
   \<and> (Callback 7 False, [Some (JStr ''def789'')])
       \<in> set (calls (snd (on_message demo listener_def789 twice_subscribed
                  (JSON_stringify (sealed accept_request)))))
   \<and> dispatched_request demo listener_def789 twice_subscribed
         (JSON_stringify (sealed reject_request)) = Some reject_request
   \<and> onRejectCallbacks twice_subscribed = [] @ Callback 4 False # [Callback 9 False]
   \<and> (Callback 4 False, [])
       \<in> set (calls (snd (on_message demo listener_def789 twice_subscribed
                  (JSON_stringify (sealed reject_request)))))
   \<and> dispatched_request demo listener_def789 twice_subscribed
         (JSON_stringify (sealed done_request)) = Some done_request
   \<and> onProofGeneratedCallbacks twice_subscribed = [Callback 3 False] @ Callback 8 False # []
   \<and> (Callback 8 False, [Some (JStr ''deadbeef'')])
       \<in> set (calls (snd (on_message demo listener_def789 twice_subscribed
                  (JSON_stringify (sealed done_request)))))
   \<and> dispatched_request demo listener_def789 twice_subscribed
         (JSON_stringify (sealed error_request)) = Some error_request
   \<and> onErrorCallbacks twice_subscribed = [] @ Callback 5 False # [Callback 10 False]
   \<and> (Callback 5 False, [Some (JStr ''timeout'')])
       \<in> set (calls (snd (on_message demo listener_def789 twice_subscribed
                  (JSON_stringify (sealed error_request)))))
   \<and> (\<exists>st'. cancelRequest twice_subscribed ''abc456'' = Inr (st', [Close 1])
          \<and> qrCodeScannedCallbacks st' = [] \<and> onGeneratingProofCallbacks st' = []
          \<and> onProofGeneratedCallbacks st' = [] \<and> onErrorCallbacks st' = [])"
proof -
  have d: "requestId descriptor_abc456 \<noteq> l_topic listener_def789"
    by (simp add: descriptor_abc456_def listener_def789_def)
  have t: "l_topic listener_def789 = ''def789''"
    by (simp add: listener_def789_def)
  note s = twice_subscribed_fields(1)
  have da: "dispatched_request demo listener_def789 twice_subscribed
              (JSON_stringify (sealed accept_request)) = Some accept_request"
    by (rule dispatched_sealed [OF parse_sealed_accept decode_sealed_accept parse_accept s])
  have dr: "dispatched_request demo listener_def789 twice_subscribed
              (JSON_stringify (sealed reject_request)) = Some reject_request"
    by (rule dispatched_sealed [OF parse_sealed_reject decode_sealed_reject parse_reject s])
  have dd: "dispatched_request demo listener_def789 twice_subscribed
              (JSON_stringify (sealed done_request)) = Some done_request"
    by (rule dispatched_sealed [OF parse_sealed_done decode_sealed_done parse_done s])
  have de: "dispatched_request demo listener_def789 twice_subscribed
              (JSON_stringify (sealed error_request)) = Some error_request"
    by (rule dispatched_sealed [OF parse_sealed_error decode_sealed_error parse_error s])
  have r1: "qrCodeScannedCallbacks twice_subscribed = [] @ Callback 1 False # [Callback 6 True]"
    and r2: "onGeneratingProofCallbacks twice_subscribed = [Callback 2 False] @ Callback 7 False # []"
    and r3: "onRejectCallbacks twice_subscribed = [] @ Callback 4 False # [Callback 9 False]"
    and r4: "onProofGeneratedCallbacks twice_subscribed = [Callback 3 False] @ Callback 8 False # []"
    and r5: "onErrorCallbacks twice_subscribed = [] @ Callback 5 False # [Callback 10 False]"
    by (simp_all add: twice_subscribed_fields)
  have 0: "qrCodeScannedCallbacks (onQRCodeScanned descriptor_abc456 (Callback 6 True) established)
       = [Callback 1 False, Callback 6 True]"
    using callbacks_fire_for_any_topic [OF d, where ?st0.0 = established and cb = "Callback 6 True",
        THEN conjunct1]
    by (simp add: established_fields)
  have 1: "(Callback 1 False, [])
       \<in> set (calls (snd (on_message demo listener_def789 twice_subscribed
                  (JSON_stringify handshake_03cc))))"
    using callbacks_fire_for_any_topic [OF d, where ext = demo and st = twice_subscribed
        and cb = "Callback 1 False" and event_data = "JSON_stringify handshake_03cc",
        THEN conjunct2, THEN conjunct2, THEN conjunct2, THEN conjunct2, THEN conjunct2,
        THEN conjunct1, THEN spec [of _ "[]"], THEN spec [of _ "[Callback 6 True]"]]
      completes_03cc r1
    by simp
  have 2: "(Callback 7 False, [Some (JStr ''def789'')])
       \<in> set (calls (snd (on_message demo listener_def789 twice_subscribed
                  (JSON_stringify (sealed accept_request)))))"
    using callbacks_fire_for_any_topic [OF d, where ext = demo and st = twice_subscribed
        and cb = "Callback 7 False" and event_data = "JSON_stringify (sealed accept_request)",
        THEN conjunct2, THEN conjunct2, THEN conjunct2, THEN conjunct2, THEN conjunct2,
        THEN conjunct2, THEN conjunct1, THEN spec [of _ "[Callback 2 False]"],
        THEN spec [of _ "[]"], THEN spec [of _ accept_request]] da r2
    by (simp add: inner_requests t)
  have 3: "(Callback 4 False, [])
       \<in> set (calls (snd (on_message demo listener_def789 twice_subscribed
                  (JSON_stringify (sealed reject_request)))))"
    using callbacks_fire_for_any_topic [OF d, where ext = demo and st = twice_subscribed
        and cb = "Callback 4 False" and event_data = "JSON_stringify (sealed reject_request)",
        THEN conjunct2, THEN conjunct2, THEN conjunct2, THEN conjunct2, THEN conjunct2,
        THEN conjunct2, THEN conjunct2, THEN conjunct1, THEN spec [of _ "[]"],
        THEN spec [of _ "[Callback 9 False]"], THEN spec [of _ reject_request]] dr r3
    by (simp add: inner_requests)
  have 4: "(Callback 8 False, [Some (JStr ''deadbeef'')])
       \<in> set (calls (snd (on_message demo listener_def789 twice_subscribed
                  (JSON_stringify (sealed done_request)))))"
    using callbacks_fire_for_any_topic [OF d, where ext = demo and st = twice_subscribed
        and cb = "Callback 8 False" and event_data = "JSON_stringify (sealed done_request)",
        THEN conjunct2, THEN conjunct2, THEN conjunct2, THEN conjunct2, THEN conjunct2,
        THEN conjunct2, THEN conjunct2, THEN conjunct2, THEN conjunct1,
        THEN spec [of _ "[Callback 3 False]"], THEN spec [of _ "[]"],
        THEN spec [of _ done_request],
        THEN spec [of _ "Some (JObj [(''proof'', JStr ''deadbeef'')])"],
        THEN spec [of _ "Some (JStr ''deadbeef'')"]] dd r4
    by (simp add: inner_requests)
  have 5: "(Callback 5 False, [Some (JStr ''timeout'')])
       \<in> set (calls (snd (on_message demo listener_def789 twice_subscribed
                  (JSON_stringify (sealed error_request)))))"
    using callbacks_fire_for_any_topic [OF d, where ext = demo and st = twice_subscribed
        and cb = "Callback 5 False" and event_data = "JSON_stringify (sealed error_request)",
        THEN conjunct2, THEN conjunct2, THEN conjunct2, THEN conjunct2, THEN conjunct2,
        THEN conjunct2, THEN conjunct2, THEN conjunct2, THEN conjunct2, THEN conjunct1,
        THEN spec [of _ "[]"], THEN spec [of _ "[Callback 10 False]"],
        THEN spec [of _ error_request],
        THEN spec [of _ "Some (JObj [(''error'', JStr ''timeout'')])"],
        THEN spec [of _ "Some (JStr ''timeout'')"]] de r5
    by (simp add: inner_requests)
  obtain st' where c: "cancelRequest twice_subscribed ''abc456'' = Inr (st', [Close 1])"
    by (simp add: cancelRequest_def twice_subscribed_fields)
  from callbacks_fire_for_any_topic [OF d, where st = twice_subscribed,
      THEN conjunct2, THEN conjunct2, THEN conjunct2, THEN conjunct2, THEN conjunct2,
      THEN conjunct2, THEN conjunct2, THEN conjunct2, THEN conjunct2, THEN conjunct2,
      THEN conjunct1, THEN spec, THEN spec, THEN spec, THEN mp, OF c]
  have "qrCodeScannedCallbacks st' = [] \<and> onGeneratingProofCallbacks st' = []
          \<and> onProofGeneratedCallbacks st' = [] \<and> onErrorCallbacks st' = []" .
  with c have 6: "\<exists>st'. cancelRequest twice_subscribed ''abc456'' = Inr (st', [Close 1])
          \<and> qrCodeScannedCallbacks st' = [] \<and> onGeneratingProofCallbacks st' = []
          \<and> onProofGeneratedCallbacks st' = [] \<and> onErrorCallbacks st' = []"
    by blast
  from d 0 completes_03cc r1 1 da r2 2 dr r3 3 dd r4 4 de r5 5 6 show ?thesis
    by (intro conjI)
qed

section \<open>Handshakes\<close>

text \<open>
  Claim C2, as stated: once a handshake has set the shared secret of a session, a later
  handshake for the same topic leaves it unchanged. It fails on the code: after the
  handshake with public key \<^verbatim>\<open>03cc\<close>, the handshake with \<^verbatim>\<open>03dd\<close> replaces the shared
  secret of \<^verbatim>\<open>def789\<close> by the newly derived one.
\<close>

theorem second_handshake_overwrites_secret:
  "topicToSharedSecret
     (fst (on_message demo listener_def789 two_sessions (JSON_stringify handshake_03cc))) ''def789''
     = Some secret_03cc
   \<and> topicToSharedSecret
       (fst (on_message demo listener_def789
              (fst (on_message demo listener_def789 two_sessions (JSON_stringify handshake_03cc)))
              (JSON_stringify handshake_03dd))) ''def789''
     = Some secret_03dd
   \<and> secret_03cc \<noteq> secret_03dd"
  by (simp add: handshake_state_03cc [OF listener_def789_fields]
      handshake_state_03dd [OF listener_def789_fields] secret_03cc_def secret_03dd_def)

text \<open>
  Claim C2, amended. For every session, processing a handshake message sets the stored
  shared secret of the topic to the secret derived from the private key of the session
  and the public key of the message, whether or not a secret was stored before; the
  instance is left as it was only when the public key cannot be read or the derivation
  fails. Nothing else of the instance changes.
\<close>

theorem handshake_sets_secret:
  assumes "JSON_parse ext event_data = Inr data" and "has_method data ''handshake''"
  shows "fst (on_message ext l st event_data)
           = (case read_pubkey data of
                Inl e \<Rightarrow> st
              | Inr pubkey \<Rightarrow>
                  (case getSharedSecret ext (bytesToHex (privateKey (l_keyPair l))) pubkey of
                     Inl e \<Rightarrow> st
                   | Inr secret \<Rightarrow>
                       st\<lparr>topicToSharedSecret := (topicToSharedSecret st)(l_topic l \<mapsto> secret)\<rparr>))"
  unfolding on_message_handshake [OF assms]
  by (simp add: on_handshake_def Let_def split: sum.splits prod.splits)

theorem handshake_sets_secret_witness:
  "JSON_parse demo (JSON_stringify handshake_03dd) = Inr handshake_03dd
   \<and> has_method handshake_03dd ''handshake''
   \<and> topicToSharedSecret established ''def789'' = Some secret_03cc
   \<and> fst (on_message demo listener_def789 established (JSON_stringify handshake_03dd))
       = established\<lparr>topicToSharedSecret :=
                        (topicToSharedSecret established)(''def789'' \<mapsto> secret_03dd)\<rparr>"
proof -
  have "fst (on_message demo listener_def789 established (JSON_stringify handshake_03dd))
       = established\<lparr>topicToSharedSecret :=
                        (topicToSharedSecret established)(''def789'' \<mapsto> secret_03dd)\<rparr>"
    unfolding handshake_sets_secret [OF parse_handshake_03dd handshake_messages(2)]
    by (simp add: handshake_messages derive_def789 listener_def789_fields(1))
  with parse_handshake_03dd handshake_messages(2) established_fields(1) show ?thesis
    by (intro conjI)
qed

section \<open>Messages after a cancellation\<close>




section \<open>Decryption failures\<close>

text \<open>
  Claim C7. For every session, if the payload of an inbound \<^verbatim>\<open>encryptedMessage\<close> cannot be
  decoded or fails to decrypt with the stored shared secret (which is absent before a
  handshake), the failure is caught and logged as an error, no callback is called and
  the instance is unchanged. The listener then goes on processing valid messages for the
  topic: an encrypted message that arrives next and decodes, decrypts and parses is
  dispatched, leaves the instance unchanged and calls the callbacks of its method
  (\<^verbatim>\<open>accept\<close>: the \<^verbatim>\<open>onGeneratingProof\<close> callbacks, with the topic; \<^verbatim>\<open>reject\<close>: the \<^verbatim>\<open>onReject\<close>
  callbacks; \<^verbatim>\<open>done\<close>: the \<^verbatim>\<open>onProofGenerated\<close> callbacks, with the proof; \<^verbatim>\<open>error\<close>: the
  \<^verbatim>\<open>onError\<close> callbacks, with the error), and a handshake that arrives next is completed:
  the shared secret is stored, the \<^verbatim>\<open>onQRCodeScanned\<close> callbacks are called and the
  \<^verbatim>\<open>hello\<close> message is sent.
\<close>

theorem decrypt_failure_is_swallowed:
  assumes "JSON_parse ext event_data = Inr data"
    and "has_method data ''encryptedMessage''"
    and "(\<exists>e. decode_payload data = Inl e)
         \<or> (\<exists>payload e. decode_payload data = Inr payload
               \<and> decrypt ext payload (topicToSharedSecret st (l_topic l)) (l_topic l) = Inl e)"
  shows "fst (on_message ext l st event_data) = st
       \<and> calls (snd (on_message ext l st event_data)) = []
       \<and> (\<exists>msg. snd (on_message ext l st event_data)
                   = [Log LogDebug ''Received message:'', Log LogError msg])
       \<and> (\<forall>next_data req.
             dispatched_request ext l st next_data = Some req \<longrightarrow>
               fst (on_message ext l (fst (on_message ext l st event_data)) next_data) = st
             \<and> (has_method req ''accept'' \<longrightarrow>
                  calls (snd (on_message ext l (fst (on_message ext l st event_data)) next_data))
                    = map (\<lambda>c. (c, [Some (JStr (l_topic l))]))
                        (reached (onGeneratingProofCallbacks st)))
             \<and> (has_method req ''reject'' \<longrightarrow>
                  calls (snd (on_message ext l (fst (on_message ext l st event_data)) next_data))
                    = map (\<lambda>c. (c, [])) (reached (onRejectCallbacks st)))
             \<and> (\<forall>p v. has_method req ''done'' \<and> get_prop (Some req) ''params'' = Inr p
                      \<and> get_prop p ''proof'' = Inr v \<longrightarrow>
                  calls (snd (on_message ext l (fst (on_message ext l st event_data)) next_data))
                    = map (\<lambda>c. (c, [v])) (reached (onProofGeneratedCallbacks st)))
             \<and> (\<forall>p v. has_method req ''error'' \<and> get_prop (Some req) ''params'' = Inr p
                      \<and> get_prop p ''error'' = Inr v \<longrightarrow>
                  calls (snd (on_message ext l (fst (on_message ext l st event_data)) next_data))
                    = map (\<lambda>c. (c, [v])) (reached (onErrorCallbacks st))))
       \<and> (\<forall>next_data hs pubkey secret m.
             JSON_parse ext next_data = Inr hs \<and> has_method hs ''handshake''
             \<and> read_pubkey hs = Inr pubkey
             \<and> getSharedSecret ext (bytesToHex (privateKey (l_keyPair l))) pubkey = Inr secret
             \<and> createEncryptedJsonRpcRequest ext ''hello'' JNull secret (l_topic l) = Inr m \<longrightarrow>
               fst (on_message ext l (fst (on_message ext l st event_data)) next_data)
                 = st\<lparr>topicToSharedSecret := (topicToSharedSecret st)(l_topic l \<mapsto> secret)\<rparr>
             \<and> calls (snd (on_message ext l (fst (on_message ext l st event_data)) next_data))
                 = map (\<lambda>c. (c, [])) (reached (qrCodeScannedCallbacks st))
             \<and> Send (l_wsClient l) (JSON_stringify m)
                 \<in> set (snd (on_message ext l (fst (on_message ext l st event_data)) next_data)))"
proof -
  from assms(3) have "on_encryptedMessage ext l st data = ([], Some TypeError) \<or>
      (\<exists>e. on_encryptedMessage ext l st data = ([], Some e)) \<or>
      on_encryptedMessage ext l st data = ([Log LogError ''Error decrypting message:''], None)"
    by (auto simp: on_encryptedMessage_def decrypt_and_handle_def decrypt_and_parse_def)
  then have "\<exists>msg. fst (on_encryptedMessage ext l st data)
                     @ catch_log (snd (on_encryptedMessage ext l st data)) = [Log LogError msg]"
    by (auto simp: catch_log_def)
  then obtain msg where
    r: "on_message ext l st event_data = (st, [Log LogDebug ''Received message:'', Log LogError msg])"
    using on_message_encrypted [OF assms(1,2), of l st] by auto
  have same: "fst (on_message ext l st event_data) = st"
    by (simp add: r)
  have quiet: "calls (snd (on_message ext l st event_data)) = []"
    by (simp add: r)
  have logged: "\<exists>msg. snd (on_message ext l st event_data)
                   = [Log LogDebug ''Received message:'', Log LogError msg]"
    by (simp add: r)
  have valid: "\<forall>next_data req.
             dispatched_request ext l st next_data = Some req \<longrightarrow>
               fst (on_message ext l st next_data) = st
             \<and> (has_method req ''accept'' \<longrightarrow>
                  calls (snd (on_message ext l st next_data))
                    = map (\<lambda>c. (c, [Some (JStr (l_topic l))]))
                        (reached (onGeneratingProofCallbacks st)))
             \<and> (has_method req ''reject'' \<longrightarrow>
                  calls (snd (on_message ext l st next_data))
                    = map (\<lambda>c. (c, [])) (reached (onRejectCallbacks st)))
             \<and> (\<forall>p v. has_method req ''done'' \<and> get_prop (Some req) ''params'' = Inr p
                      \<and> get_prop p ''proof'' = Inr v \<longrightarrow>
                  calls (snd (on_message ext l st next_data))
                    = map (\<lambda>c. (c, [v])) (reached (onProofGeneratedCallbacks st)))
             \<and> (\<forall>p v. has_method req ''error'' \<and> get_prop (Some req) ''params'' = Inr p
                      \<and> get_prop p ''error'' = Inr v \<longrightarrow>
                  calls (snd (on_message ext l st next_data))
                    = map (\<lambda>c. (c, [v])) (reached (onErrorCallbacks st)))"
  proof (intro allI impI)
    fix next_data req
    assume d: "dispatched_request ext l st next_data = Some req"
    have 1: "fst (on_message ext l st next_data) = st"
      by (rule dispatched_state [OF d])
    have 2: "has_method req ''accept'' \<longrightarrow>
                  calls (snd (on_message ext l st next_data))
                    = map (\<lambda>c. (c, [Some (JStr (l_topic l))]))
                        (reached (onGeneratingProofCallbacks st))"
      using dispatched_accept_calls [OF d] by blast
    have 3: "has_method req ''reject'' \<longrightarrow>
                  calls (snd (on_message ext l st next_data))
                    = map (\<lambda>c. (c, [])) (reached (onRejectCallbacks st))"
      using dispatched_reject_calls [OF d] by blast
    have 4: "\<forall>p v. has_method req ''done'' \<and> get_prop (Some req) ''params'' = Inr p
                      \<and> get_prop p ''proof'' = Inr v \<longrightarrow>
                  calls (snd (on_message ext l st next_data))
                    = map (\<lambda>c. (c, [v])) (reached (onProofGeneratedCallbacks st))"
      using dispatched_done_calls [OF d] by blast
    have 5: "\<forall>p v. has_method req ''error'' \<and> get_prop (Some req) ''params'' = Inr p
                      \<and> get_prop p ''error'' = Inr v \<longrightarrow>
                  calls (snd (on_message ext l st next_data))
                    = map (\<lambda>c. (c, [v])) (reached (onErrorCallbacks st))"
      using dispatched_error_calls [OF d] by blast
    from 1 2 3 4 5
    show "fst (on_message ext l st next_data) = st
             \<and> (has_method req ''accept'' \<longrightarrow>
                  calls (snd (on_message ext l st next_data))
                    = map (\<lambda>c. (c, [Some (JStr (l_topic l))]))
                        (reached (onGeneratingProofCallbacks st)))
             \<and> (has_method req ''reject'' \<longrightarrow>
                  calls (snd (on_message ext l st next_data))
                    = map (\<lambda>c. (c, [])) (reached (onRejectCallbacks st)))
             \<and> (\<forall>p v. has_method req ''done'' \<and> get_prop (Some req) ''params'' = Inr p
                      \<and> get_prop p ''proof'' = Inr v \<longrightarrow>
                  calls (snd (on_message ext l st next_data))
                    = map (\<lambda>c. (c, [v])) (reached (onProofGeneratedCallbacks st)))
             \<and> (\<forall>p v. has_method req ''error'' \<and> get_prop (Some req) ''params'' = Inr p
                      \<and> get_prop p ''error'' = Inr v \<longrightarrow>
                  calls (snd (on_message ext l st next_data))
                    = map (\<lambda>c. (c, [v])) (reached (onErrorCallbacks st)))"
      by (intro conjI)
  qed
  have shake: "\<forall>next_data hs pubkey secret m.
             JSON_parse ext next_data = Inr hs \<and> has_method hs ''handshake''
             \<and> read_pubkey hs = Inr pubkey
             \<and> getSharedSecret ext (bytesToHex (privateKey (l_keyPair l))) pubkey = Inr secret
             \<and> createEncryptedJsonRpcRequest ext ''hello'' JNull secret (l_topic l) = Inr m \<longrightarrow>
               fst (on_message ext l st next_data)
                 = st\<lparr>topicToSharedSecret := (topicToSharedSecret st)(l_topic l \<mapsto> secret)\<rparr>
             \<and> calls (snd (on_message ext l st next_data))
                 = map (\<lambda>c. (c, [])) (reached (qrCodeScannedCallbacks st))
             \<and> Send (l_wsClient l) (JSON_stringify m)
                 \<in> set (snd (on_message ext l st next_data))"
  proof (intro allI impI)
    fix next_data hs pubkey secret m
    assume a: "JSON_parse ext next_data = Inr hs \<and> has_method hs ''handshake''
             \<and> read_pubkey hs = Inr pubkey
             \<and> getSharedSecret ext (bytesToHex (privateKey (l_keyPair l))) pubkey = Inr secret
             \<and> createEncryptedJsonRpcRequest ext ''hello'' JNull secret (l_topic l) = Inr m"
    then have h: "JSON_parse ext next_data = Inr hs" "has_method hs ''handshake''"
      "read_pubkey hs = Inr pubkey"
      "getSharedSecret ext (bytesToHex (privateKey (l_keyPair l))) pubkey = Inr secret"
      "createEncryptedJsonRpcRequest ext ''hello'' JNull secret (l_topic l) = Inr m"
      by simp_all
    from handshake_run [OF h, of st]
    show "fst (on_message ext l st next_data)
                 = st\<lparr>topicToSharedSecret := (topicToSharedSecret st)(l_topic l \<mapsto> secret)\<rparr>
             \<and> calls (snd (on_message ext l st next_data))
                 = map (\<lambda>c. (c, [])) (reached (qrCodeScannedCallbacks st))
             \<and> Send (l_wsClient l) (JSON_stringify m)
                 \<in> set (snd (on_message ext l st next_data))"
      by (intro conjI)
  qed
  from same quiet logged valid shake show ?thesis
    unfolding same by (intro conjI)
qed

theorem decrypt_failure_is_swallowed_witness:
  "JSON_parse demo (JSON_stringify corrupted_message) = Inr corrupted_message
   \<and> has_method corrupted_message ''encryptedMessage''
   \<and> decode_payload corrupted_message = Inl InvalidCharacterError
   \<and> fst (on_message demo listener_def789 established (JSON_stringify corrupted_message))
       = established
   \<and> calls (snd (on_message demo listener_def789 established (JSON_stringify corrupted_message)))
       = []
   \<and> dispatched_request demo listener_def789 established (JSON_stringify (sealed accept_request))
       = Some accept_request
   \<and> calls (snd (on_message demo listener_def789
                (fst (on_message demo listener_def789 established
                        (JSON_stringify corrupted_message)))
                (JSON_stringify (sealed accept_request))))
       = [(Callback 2 False, [Some (JStr ''def789'')])]
   \<and> dispatched_request demo listener_def789 established (JSON_stringify (sealed done_request))
       = Some done_request
   \<and> calls (snd (on_message demo listener_def789
                (fst (on_message demo listener_def789 established
                        (JSON_stringify corrupted_message)))
                (JSON_stringify (sealed done_request))))
       = [(Callback 3 False, [Some (JStr ''deadbeef'')])]
   \<and> JSON_parse demo (JSON_stringify (sealed accept_request)) = Inr (sealed accept_request)
   \<and> has_method (sealed accept_request) ''encryptedMessage''
   \<and> decode_payload (sealed accept_request)
       = Inr (demo_seal secret_03cc ''def789'' (JSON_stringify accept_request))
   \<and> topicToSharedSecret subscribed (l_topic listener_def789) = None
   \<and> decrypt demo (demo_seal secret_03cc ''def789'' (JSON_stringify accept_request))
         (topicToSharedSecret subscribed (l_topic listener_def789)) (l_topic listener_def789)
       = Inl (Thrown ''no shared secret'')
   \<and> fst (on_message demo listener_def789 subscribed (JSON_stringify (sealed accept_request)))
       = subscribed
   \<and> calls (snd (on_message demo listener_def789 subscribed
                    (JSON_stringify (sealed accept_request)))) = []
   \<and> fst (on_message demo listener_def789
            (fst (on_message demo listener_def789 subscribed
                    (JSON_stringify (sealed accept_request))))
            (JSON_stringify handshake_03cc))
       = established
   \<and> calls (snd (on_message demo listener_def789
                (fst (on_message demo listener_def789 subscribed
                        (JSON_stringify (sealed accept_request))))
                (JSON_stringify handshake_03cc)))
       = [(Callback 1 False, [])]"
proof -
  note t = listener_def789_fields(1)
  have n: "topicToSharedSecret subscribed (l_topic listener_def789) = None"
    by (simp add: subscribed_fields)
  have f: "decrypt demo (demo_seal secret_03cc ''def789'' (JSON_stringify accept_request))
         (topicToSharedSecret subscribed (l_topic listener_def789)) (l_topic listener_def789)
       = Inl (Thrown ''no shared secret'')"
    by (simp add: n demo_fields(4) demo_decrypt_def)
  from corrupted_facts(2) have hc:
    "(\<exists>e. decode_payload corrupted_message = Inl e)
     \<or> (\<exists>payload e. decode_payload corrupted_message = Inr payload
           \<and> decrypt demo payload (topicToSharedSecret established (l_topic listener_def789))
                 (l_topic listener_def789) = Inl e)"
    by blast
  note A = decrypt_failure_is_swallowed [OF parse_corrupted corrupted_facts(1) hc]
  from A have a1: "fst (on_message demo listener_def789 established
                          (JSON_stringify corrupted_message)) = established"
    by (rule conjunct1)
  from A [THEN conjunct2] have a2: "calls (snd (on_message demo listener_def789 established
                          (JSON_stringify corrupted_message))) = []"
    by (rule conjunct1)
  note s = established_fields(1)
  have da: "dispatched_request demo listener_def789 established
              (JSON_stringify (sealed accept_request)) = Some accept_request"
    by (rule dispatched_sealed [OF parse_sealed_accept decode_sealed_accept parse_accept s])
  have dd: "dispatched_request demo listener_def789 established
              (JSON_stringify (sealed done_request)) = Some done_request"
    by (rule dispatched_sealed [OF parse_sealed_done decode_sealed_done parse_done s])
  from A [THEN conjunct2, THEN conjunct2, THEN conjunct2, THEN conjunct1, THEN spec, THEN spec,
      THEN mp, OF da, THEN conjunct2, THEN conjunct1, THEN mp, OF inner_requests(1)]
  have a3: "calls (snd (on_message demo listener_def789
                (fst (on_message demo listener_def789 established
                        (JSON_stringify corrupted_message)))
                (JSON_stringify (sealed accept_request))))
       = [(Callback 2 False, [Some (JStr ''def789'')])]"
    by (simp add: established_fields t)
  from A [THEN conjunct2, THEN conjunct2, THEN conjunct2, THEN conjunct1, THEN spec, THEN spec,
      THEN mp, OF dd, THEN conjunct2, THEN conjunct2, THEN conjunct2, THEN conjunct1,
      THEN spec [of _ "Some (JObj [(''proof'', JStr ''deadbeef'')])"],
      THEN spec [of _ "Some (JStr ''deadbeef'')"]]
  have a4: "calls (snd (on_message demo listener_def789
                (fst (on_message demo listener_def789 established
                        (JSON_stringify corrupted_message)))
                (JSON_stringify (sealed done_request))))
       = [(Callback 3 False, [Some (JStr ''deadbeef'')])]"
    by (simp add: established_fields inner_requests)
  from decode_sealed_accept f have hs:
    "(\<exists>e. decode_payload (sealed accept_request) = Inl e)
     \<or> (\<exists>payload e. decode_payload (sealed accept_request) = Inr payload
           \<and> decrypt demo payload (topicToSharedSecret subscribed (l_topic listener_def789))
                 (l_topic listener_def789) = Inl e)"
    by blast
  note B = decrypt_failure_is_swallowed [OF parse_sealed_accept sealed_messages hs]
  from B have b1: "fst (on_message demo listener_def789 subscribed
                          (JSON_stringify (sealed accept_request))) = subscribed"
    by (rule conjunct1)
  from B [THEN conjunct2] have b2: "calls (snd (on_message demo listener_def789 subscribed
                          (JSON_stringify (sealed accept_request)))) = []"
    by (rule conjunct1)
  have m: "createEncryptedJsonRpcRequest demo ''hello'' JNull secret_03cc (l_topic listener_def789)
      = Inr (encrypted_message secret_03cc (l_topic listener_def789) (rpc_message ''hello'' JNull))"
    by (simp add: demo_fields demo_createEncryptedJsonRpcRequest_def)
  from parse_handshake_03cc handshake_messages(1,3) derive_def789(1) m
  have hh: "JSON_parse demo (JSON_stringify handshake_03cc) = Inr handshake_03cc
      \<and> has_method handshake_03cc ''handshake''
      \<and> read_pubkey handshake_03cc = Inr (Some (JStr ''03cc''))
      \<and> getSharedSecret demo (bytesToHex (privateKey (l_keyPair listener_def789)))
           (Some (JStr ''03cc'')) = Inr secret_03cc
      \<and> createEncryptedJsonRpcRequest demo ''hello'' JNull secret_03cc (l_topic listener_def789)
          = Inr (encrypted_message secret_03cc (l_topic listener_def789)
                   (rpc_message ''hello'' JNull))"
    by (intro conjI)
  note C = B [THEN conjunct2, THEN conjunct2, THEN conjunct2, THEN conjunct2,
      THEN spec, THEN spec, THEN spec, THEN spec, THEN spec, THEN mp, OF hh]
  from C [THEN conjunct1]
  have b3: "fst (on_message demo listener_def789
            (fst (on_message demo listener_def789 subscribed
                    (JSON_stringify (sealed accept_request))))
            (JSON_stringify handshake_03cc))
       = established"
    by (simp add: established_def subscribed_fields(1) t)
  from C [THEN conjunct2, THEN conjunct1]
  have b4: "calls (snd (on_message demo listener_def789
                (fst (on_message demo listener_def789 subscribed
                        (JSON_stringify (sealed accept_request))))
                (JSON_stringify handshake_03cc)))
       = [(Callback 1 False, [])]"
    by (simp add: subscribed_fields)
  from parse_corrupted corrupted_facts a1 a2 da a3 dd a4
    parse_sealed_accept sealed_messages [of accept_request] decode_sealed_accept n f b1 b2 b3 b4
  show ?thesis
    by (intro conjI)
qed

end
